theory Spec2Isabelle
  imports Complex_Main
begin

section \<open>Contextcam clone: geodesy helper, metadata extractor, overlay renderer, batch driver\<close>

text \<open>
  A shallow embedding of \<^verbatim>\<open>_testing_image_overlay.py\<close> and \<^verbatim>\<open>app.py\<close>.

  Conventions of the embedding:
  \<^item> Python \<^verbatim>\<open>int\<close> is \<^typ>\<open>int\<close>; floor division \<^verbatim>\<open>//\<close> by a positive literal is \<open>div\<close>.
  \<^item> A Python \<^verbatim>\<open>float\<close> is the \<^typ>\<open>real\<close> it denotes. Each arithmetic operation, literal and
    conversion that the code performs on floats (\<^verbatim>\<open>+\<close>, \<^verbatim>\<open>-\<close>, \<^verbatim>\<open>*\<close>, \<^verbatim>\<open>/\<close>, \<^verbatim>\<open>float\<close>, \<^verbatim>\<open>round\<close>, the
    \<^verbatim>\<open>.nf\<close> formats) is the exact operation followed by \<open>fl\<close>, the rounding to the nearest
    IEEE 754 double with ties to even. Overflow to infinity, NaN and the sign of zero
    are outside the model.
  \<^item> The functions of the \<^verbatim>\<open>math\<close> module are not correctly rounded, so the bearing
    computation (\<^verbatim>\<open>radians\<close>, \<^verbatim>\<open>sin\<close>, \<^verbatim>\<open>cos\<close>, \<^verbatim>\<open>atan2\<close>, \<^verbatim>\<open>degrees\<close> and its closing
    \<^verbatim>\<open>+ 360\<close> and \<^verbatim>\<open>% 360\<close>) is read over the reals.
  \<^item> A raised exception is \<open>Inl e\<close> of the result type \<open>py_error + 'a\<close>; a returned value is
    \<open>Inr v\<close>; Python's \<^verbatim>\<open>None\<close> result of an \<^verbatim>\<open>Optional\<close> is \<open>None\<close>.
  \<^item> The disk is a map from paths to decoded images. The pixel content of an image is
    symbolic: the list of the drawing operations that produced it.
\<close>

subsection \<open>Exceptions\<close>

datatype py_error =
    ZeroDivisionError
  | KeyError
  | IndexError
  | TypeError
  | ValueError
  | FileNotFoundError
  | OSError
  | AttributeError
  | NotADirectoryError

definition bindE :: "py_error + 'a \<Rightarrow> ('a \<Rightarrow> py_error + 'b) \<Rightarrow> py_error + 'b" where
  "bindE m f = (case m of Inl e \<Rightarrow> Inl e | Inr v \<Rightarrow> f v)"

subsection \<open>Numeric primitives of Python\<close>

text \<open>\<^verbatim>\<open>int(x)\<close> on a float truncates towards zero.\<close>

definition py_int :: "real \<Rightarrow> int" where
  "py_int x = (if 0 \<le> x then \<lfloor>x\<rfloor> else \<lceil>x\<rceil>)"

text \<open>\<^verbatim>\<open>round(x)\<close> and \<^verbatim>\<open>round(x, n)\<close> round half to even.\<close>

definition round_half_even :: "real \<Rightarrow> int" where
  "round_half_even x =
     (let f = \<lfloor>x\<rfloor>; d = x - of_int f
      in if d < 1 / 2 then f
         else if 1 / 2 < d then f + 1
         else if even f then f else f + 1)"

text \<open>
  Rounding to the nearest double, ties to even: a real \<open>x\<close> with
  \<open>2\<^sup>e \<le> \<bar>x\<bar> < 2\<^sup>e\<^sup>+\<^sup>1\<close> is rounded to a multiple of \<open>2\<^sup>e\<^sup>-\<^sup>5\<^sup>2\<close>, and below the normal range to
  a multiple of \<open>2\<^sup>-\<^sup>1\<^sup>0\<^sup>7\<^sup>4\<close>.
\<close>

definition fl :: "real \<Rightarrow> real" where
  "fl x =
     (if x = 0 then 0
      else
        let e = max \<lfloor>log 2 \<bar>x\<bar>\<rfloor> (- 1022);
            u = 2 powi (e - 52)
        in of_int (round_half_even (x / u)) * u)"

text \<open>\<^verbatim>\<open>round(x, n)\<close> on a float: the exact value of \<open>x\<close> is rounded half to even at \<open>n\<close>
  decimals, and the decimal result is converted to the nearest double.\<close>

definition py_round :: "real \<Rightarrow> nat \<Rightarrow> real" where
  "py_round x ndigits = fl (of_int (round_half_even (x * 10 ^ ndigits)) / 10 ^ ndigits)"

text \<open>\<^verbatim>\<open>x % y\<close> on floats: the result has the sign of the divisor; a zero divisor raises.\<close>

definition py_float_mod :: "real \<Rightarrow> real \<Rightarrow> py_error + real" where
  "py_float_mod x y =
     (if y = 0 then Inl ZeroDivisionError else Inr (x - y * of_int \<lfloor>x / y\<rfloor>))"

text \<open>\<^verbatim>\<open>math.radians\<close>, \<^verbatim>\<open>math.degrees\<close> and \<^verbatim>\<open>math.atan2(y, x)\<close> (the angle of the point
  \<open>(x, y)\<close> in \<open>(-\<pi>, \<pi>]\<close>, and \<open>0\<close> at the origin).\<close>

definition radians :: "real \<Rightarrow> real" where
  "radians d = d * pi / 180"

definition degrees :: "real \<Rightarrow> real" where
  "degrees r = r * 180 / pi"

definition atan2 :: "real \<Rightarrow> real \<Rightarrow> real" where
  "atan2 y x =
     (if 0 < x then arctan (y / x)
      else if x < 0 \<and> 0 \<le> y then arctan (y / x) + pi
      else if x < 0 \<and> y < 0 then arctan (y / x) - pi
      else if 0 < y then pi / 2
      else if y < 0 then - pi / 2
      else 0)"

subsection \<open>Geodesy helper\<close>

definition calculate_initial_compass_bearing ::
  "real \<Rightarrow> real \<Rightarrow> real \<Rightarrow> real \<Rightarrow> py_error + real" where
  "calculate_initial_compass_bearing lat1 lon1 lat2 lon2 =
     (let lat1 = radians lat1;
          lon1 = radians lon1;
          lat2 = radians lat2;
          lon2 = radians lon2;
          dlon = lon2 - lon1;
          x = sin dlon * cos lat2;
          y = cos lat1 * sin lat2 - (sin lat1 * cos lat2 * cos dlon);
          bearing = atan2 x y;
          bearing = degrees bearing
      in py_float_mod (bearing + 360) 360)"

text \<open>An EXIF number is a rational \<open>(num, den)\<close> pair of integers or a plain number. The
  true division of two integers is correctly rounded, and so is \<^verbatim>\<open>float\<close> of a number.\<close>

datatype exif_number = Rational int int | Number real

fun rational_to_float :: "exif_number \<Rightarrow> py_error + real" where
  "rational_to_float (Rational num den) =
     (if den = 0 then Inl ZeroDivisionError else Inr (fl (of_int num / of_int den)))"
| "rational_to_float (Number v) = Inr (fl v)"

definition index :: "'a list \<Rightarrow> nat \<Rightarrow> py_error + 'a" where
  "index xs i = (if i < length xs then Inr (xs ! i) else Inl IndexError)"

definition get_decimal_from_dms :: "exif_number list \<Rightarrow> py_error + real" where
  "get_decimal_from_dms dms =
     bindE (bindE (index dms 0) rational_to_float) (\<lambda>degrees.
     bindE (bindE (index dms 1) rational_to_float) (\<lambda>m.
     bindE (bindE (index dms 2) rational_to_float) (\<lambda>s.
       let minutes = fl (m / 60); seconds = fl (s / 3600)
       in Inr (py_round (fl (fl (degrees + minutes) + seconds)) 5))))"

subsection \<open>Strings\<close>

text \<open>\<^verbatim>\<open>s.split(sep)\<close> with a one-character separator: one more part than separators.\<close>

fun split :: "char \<Rightarrow> string \<Rightarrow> string list" where
  "split sep [] = [[]]"
| "split sep (c # cs) =
     (if c = sep then [] # split sep cs
      else (case split sep cs of [] \<Rightarrow> [[c]] | p # ps \<Rightarrow> (c # p) # ps))"

text \<open>\<^verbatim>\<open>s.replace(old, new)\<close> for one-character \<^verbatim>\<open>old\<close> and \<^verbatim>\<open>new\<close>.\<close>

definition replace :: "char \<Rightarrow> char \<Rightarrow> string \<Rightarrow> string" where
  "replace old new s = map (\<lambda>c. if c = old then new else c) s"

text \<open>Decimal printing, as \<^verbatim>\<open>str\<close> and the f-string fields \<^verbatim>\<open>{idd}\<close>, \<^verbatim>\<open>{x:.1f}\<close>, \<^verbatim>\<open>{x:.5f}\<close> do.
  A fixed-point format prints the exact value of the double, rounded half to even at
  \<open>n\<close> decimals; its argument is taken to the nearest double first, as a literal or an
  integer passed for a float is.\<close>

fun str_nat :: "nat \<Rightarrow> string" where
  "str_nat n =
     (if n < 10 then [''0123456789'' ! n]
      else str_nat (n div 10) @ [''0123456789'' ! (n mod 10)])"

declare str_nat.simps [simp del]

definition str_int :: "int \<Rightarrow> string" where
  "str_int i = (if i < 0 then CHR ''-'' # str_nat (nat (- i)) else str_nat (nat i))"

definition format_fixed :: "nat \<Rightarrow> real \<Rightarrow> string" where
  "format_fixed n x =
     (let r = nat (round_half_even (\<bar>fl x\<bar> * 10 ^ n));
          frac = str_nat (r mod 10 ^ n)
      in (if x < 0 then ''-'' else [])
         @ str_nat (r div 10 ^ n) @ ''.''
         @ replicate (n - length frac) CHR ''0'' @ frac)"

text \<open>The degree sign of the coordinate labels is the single character U+00B0.\<close>

definition degree_sign :: char where
  "degree_sign = CHR 0xB0"

text \<open>\<^verbatim>\<open>os.path.join(a, b)\<close> for two components, POSIX flavour.\<close>

definition os_path_join :: "string \<Rightarrow> string \<Rightarrow> string" where
  "os_path_join a b =
     (if b \<noteq> [] \<and> hd b = CHR ''/'' then b
      else if a = [] \<or> last a = CHR ''/'' then a @ b
      else a @ ''/'' @ b)"

text \<open>\<^verbatim>\<open>os.path.dirname(p)\<close>: the path up to the last slash, without trailing slashes unless
  it consists of slashes only.\<close>

definition os_path_dirname :: "string \<Rightarrow> string" where
  "os_path_dirname p =
     (let head = rev (dropWhile (\<lambda>c. c \<noteq> CHR ''/'') (rev p))
      in if list_all (\<lambda>c. c = CHR ''/'') head then head
         else rev (dropWhile (\<lambda>c. c = CHR ''/'') (rev head)))"

text \<open>\<^verbatim>\<open>os.path.splitext(p)\<close>: the extension starts at the last dot of the last path
  component, unless that dot leads the component.\<close>

fun splitext_rev :: "string \<Rightarrow> string \<Rightarrow> string \<times> string" where
  "splitext_rev acc [] = (acc, [])"
| "splitext_rev acc (c # cs) =
     (if c = CHR ''/'' then (rev (c # cs) @ acc, [])
      else if c = CHR ''.'' then
        (if cs = [] \<or> hd cs = CHR ''/''
            \<or> list_all (\<lambda>d. d = CHR ''.'') (takeWhile (\<lambda>d. d \<noteq> CHR ''/'') cs)
         then (rev (c # cs) @ acc, [])
         else (rev cs, c # acc))
      else splitext_rev (c # acc) cs)"

definition os_path_splitext :: "string \<Rightarrow> string \<times> string" where
  "os_path_splitext p = splitext_rev [] (rev p)"

subsection \<open>EXIF containers, images and the disk\<close>

text \<open>The dictionary returned by \<^verbatim>\<open>img._getexif()\<close>: tag 34853 holds the GPS directory (itself
  a dictionary from GPS tags to number sequences), tag 36867 a string. Where the code
  meets an entry of the other kind, the model answers TypeError.\<close>

datatype exif_entry = GPSInfo "nat \<rightharpoonup> exif_number list" | Ascii string

type_synonym exif = "nat \<rightharpoonup> exif_entry"

definition GPS_TAG :: nat where
  "GPS_TAG = 34853"

definition DATETIME_ORIGINAL :: nat where
  "DATETIME_ORIGINAL = 36867"

type_synonym rgba = "int \<times> int \<times> int \<times> int"

type_synonym box = "int \<times> int \<times> int \<times> int"

datatype draw_op =
    Photo nat
  | Fill rgba
  | Rectangle box rgba
  | DrawText "int \<times> int" string
  | GaussianBlur box nat
  | PasteShade "int \<times> int" "rgba list list"
  | Composite "draw_op list"
  | Rotate int

text \<open>The class of an image object decides whether it has the private method
  \<^verbatim>\<open>_getexif\<close>: the JPEG and PNG file classes have it; the base class of the images made in
  memory and the file classes of BMP, GIF and TIFF, all \<open>PlainImage\<close> here, do not.\<close>

datatype image_class = JpegImageFile | PngImageFile | PlainImage

record image =
  img_class :: image_class
  img_width :: int
  img_height :: int
  img_mode :: string
  img_exif :: "exif option"
  img_layers :: "draw_op list"

type_synonym files = "string \<rightharpoonup> image"

definition Image_open :: "files \<Rightarrow> string \<Rightarrow> py_error + image" where
  "Image_open fs path = (case fs path of None \<Rightarrow> Inl FileNotFoundError | Some img \<Rightarrow> Inr img)"

definition lookup :: "('k \<rightharpoonup> 'v) \<Rightarrow> 'k \<Rightarrow> py_error + 'v" where
  "lookup d k = (case d k of None \<Rightarrow> Inl KeyError | Some v \<Rightarrow> Inr v)"

subsection \<open>Metadata extractor\<close>

type_synonym comments_info = "real \<times> real \<times> string \<times> string \<times> real"

text \<open>\<^verbatim>\<open>img._getexif() or {}\<close>: the call raises for a class without the method.\<close>

definition getexif_or_empty :: "image \<Rightarrow> py_error + exif" where
  "getexif_or_empty img =
     (if img_class img = PlainImage then Inl AttributeError
      else Inr (case img_exif img of None \<Rightarrow> Map.empty | Some e \<Rightarrow> e))"

definition get_comments_info :: "files \<Rightarrow> string \<Rightarrow> py_error + comments_info option" where
  "get_comments_info fs image_path =
     bindE (Image_open fs image_path) (\<lambda>img.
     bindE (getexif_or_empty img) (\<lambda>info.
          case (info GPS_TAG, info DATETIME_ORIGINAL) of
            (Some gps, Some dt) \<Rightarrow>
              bindE (case gps of GPSInfo d \<Rightarrow> Inr d | Ascii _ \<Rightarrow> Inl TypeError) (\<lambda>data_dict.
              bindE (bindE (lookup data_dict 2) get_decimal_from_dms) (\<lambda>cord1.
              bindE (bindE (lookup data_dict 4) get_decimal_from_dms) (\<lambda>cord2.
              bindE (case dt of Ascii s \<Rightarrow> Inr s | GPSInfo _ \<Rightarrow> Inl TypeError) (\<lambda>date_time_str.
                let parts = split CHR '' '' date_time_str;
                    date_month_year = replace CHR '':'' CHR ''-'' (hd parts);
                    hour_min_second = (if length parts > 1 then parts ! 1 else [])
                in bindE (calculate_initial_compass_bearing cord1 cord2 0 0) (\<lambda>angle.
                     Inr (Some (cord1, cord2, date_month_year, hour_min_second, angle)))))))
          | _ \<Rightarrow> Inr None))"

subsection \<open>The imaging library\<close>

text \<open>
  What the code uses of Pillow, after its documentation, and of the machine it runs on.
  A font is known by its \<^verbatim>\<open>textbbox\<close> at the origin; the font file of the hard-coded path
  is a parameter that gives the font of a size, or nothing when the file cannot be loaded
  at that size. The size of an image rotated with \<^verbatim>\<open>expand=True\<close> by an angle that is no
  multiple of 90 is a parameter, and so are the directories that exist on the disk, named
  as \<^verbatim>\<open>os.path.dirname\<close> names them.
\<close>

type_synonym font = "string \<Rightarrow> int \<times> int \<times> int \<times> int"

record pillow =
  font_file :: "int \<Rightarrow> font option"
  expanded_size :: "int \<Rightarrow> int \<times> int \<Rightarrow> int \<times> int"
  directories :: "string set"

definition FreeTypeFont :: "pillow \<Rightarrow> int \<Rightarrow> py_error + font" where
  "FreeTypeFont pil pt = (case font_file pil pt of None \<Rightarrow> Inl OSError | Some f \<Rightarrow> Inr f)"

definition Image_new :: "string \<Rightarrow> int \<times> int \<Rightarrow> rgba \<Rightarrow> image" where
  "Image_new mode dims color =
     \<lparr>img_class = PlainImage, img_width = fst dims, img_height = snd dims, img_mode = mode,
      img_exif = None, img_layers = [Fill color]\<rparr>"

definition convert :: "image \<Rightarrow> string \<Rightarrow> image" where
  "convert im mode = im\<lparr>img_class := PlainImage, img_mode := mode\<rparr>"

definition alpha_composite :: "image \<Rightarrow> image \<Rightarrow> py_error + image" where
  "alpha_composite im1 im2 =
     (if img_mode im1 \<noteq> ''RGBA'' \<or> img_mode im2 \<noteq> ''RGBA''
         \<or> img_width im1 \<noteq> img_width im2 \<or> img_height im1 \<noteq> img_height im2
      then Inl ValueError
      else Inr \<lparr>img_class = PlainImage, img_width = img_width im1,
                img_height = img_height im1, img_mode = ''RGBA'', img_exif = None,
                img_layers = img_layers im1 @ [Composite (img_layers im2)]\<rparr>)"

definition draw :: "image \<Rightarrow> draw_op list \<Rightarrow> image" where
  "draw im ops = im\<lparr>img_layers := img_layers im @ ops\<rparr>"

definition Image_rotate :: "pillow \<Rightarrow> image \<Rightarrow> int \<Rightarrow> image" where
  "Image_rotate pil im angle =
     (let a = angle mod 360;
          (w, h) = (img_width im, img_height im);
          (w', h') = (if a = 0 \<or> a = 180 then (w, h)
                      else if a = 90 \<or> a = 270 then (h, w)
                      else expanded_size pil a (w, h))
      in \<lparr>img_class = PlainImage, img_width = w', img_height = h', img_mode = img_mode im,
          img_exif = None, img_layers = img_layers im @ [Rotate a]\<rparr>)"

text \<open>The JPEG writer accepts the modes below and refuses every other mode, such as RGBA,
  LA and P. The file it writes is opened as a JPEG image.\<close>

definition save_jpeg :: "files \<Rightarrow> string \<Rightarrow> image \<Rightarrow> exif option \<Rightarrow> py_error + files" where
  "save_jpeg fs path im exif_data =
     (if img_mode im \<notin> set [''1'', ''L'', ''RGB'', ''RGBX'', ''CMYK'', ''YCbCr''] then Inl OSError
      else Inr (fs(path \<mapsto> im\<lparr>img_class := JpegImageFile, img_exif := exif_data\<rparr>)))"

text \<open>The modes that \<^verbatim>\<open>ImageFilter.GaussianBlur\<close> accepts; it raises ValueError for every
  other mode, such as P.\<close>

definition blur_supported :: "string \<Rightarrow> bool" where
  "blur_supported mode \<longleftrightarrow>
     mode \<in> set [''RGB'', ''RGBA'', ''RGBa'', ''RGBX'', ''CMYK'', ''L'', ''LA'', ''La'']"

text \<open>
  The closing lines of both renderers (216 to 225 and 278 to 286): the output folder is
  created when \<^verbatim>\<open>os.path.exists\<close> denies it, which raises for the empty name; then the
  image is saved as PNG at the joined path. The save needs the directory of the path:
  for a file name without a slash that is the output folder, which must not be a regular
  file; for a file name with a slash it is a directory that nothing has created, so it
  must have been on the disk before. The operating system is taken to grant the
  creation and the write otherwise (permissions, free space, the length of the name).
\<close>

definition save_combined_image ::
  "pillow \<Rightarrow> files \<Rightarrow> string \<Rightarrow> string \<Rightarrow> image \<Rightarrow> py_error + string \<times> files" where
  "save_combined_image pil fs output_folder name combined_image =
     (let exists = (output_folder \<in> directories pil \<or> fs output_folder \<noteq> None)
      in if \<not> exists \<and> output_folder = [] then Inl FileNotFoundError
         else
           let combined_image_path = os_path_join output_folder name
           in if CHR ''/'' \<in> set name then
                (if os_path_dirname combined_image_path \<in> directories pil
                 then Inr (combined_image_path,
                           fs(combined_image_path
                                \<mapsto> combined_image\<lparr>img_class := PngImageFile\<rparr>))
                 else Inl FileNotFoundError)
              else if fs output_folder \<noteq> None then Inl NotADirectoryError
              else Inr (combined_image_path,
                        fs(combined_image_path
                             \<mapsto> combined_image\<lparr>img_class := PngImageFile\<rparr>)))"

subsection \<open>Overlay renderer, standardized variant\<close>

text \<open>One text line of a box of \<^verbatim>\<open>draw_boxes_with_text\<close> (the body of the loop over
  \<^verbatim>\<open>enumerate(lines)\<close>).\<close>

definition boxes_text_line ::
  "font \<Rightarrow> int \<Rightarrow> int \<Rightarrow> int \<Rightarrow> int \<Rightarrow> nat \<Rightarrow> nat \<Rightarrow> string \<Rightarrow> draw_op" where
  "boxes_text_line font x_position y_position box_width box_height len_lines j line =
     (let (b0, b1, b2, b3) = font line;
          text_width = b2 - b0;
          text_height = b3 - b1;
          text_x = x_position + (box_width - text_width) div 2;
          text_y =
            (if j = 1 then
               y_position + 20 + (box_height - text_height * int len_lines) div 2
                 + (text_height * int j)
             else
               y_position + (box_height - text_height * int len_lines) div 2
                 + (text_height * int j))
      in DrawText (text_x, text_y) line)"

definition draw_boxes_with_text ::
  "int \<Rightarrow> int \<Rightarrow> font \<Rightarrow> int \<Rightarrow> int \<Rightarrow> string list list \<Rightarrow> py_error + draw_op list" where
  "draw_boxes_with_text base_width box_height font transparency y_position text_lines =
     (let num_boxes = int (length text_lines)
      in if num_boxes = 0 then Inl ZeroDivisionError
         else
           let box_width = base_width div num_boxes
           in Inr (concat (map (\<lambda>(i, lines).
                let x_position = int i * box_width;
                    box = (x_position, y_position, x_position + box_width, y_position + box_height)
                in Rectangle box (0, 0, 0, transparency)
                   # map (\<lambda>(j, line).
                       boxes_text_line font x_position y_position box_width box_height
                         (length lines) j line)
                     (enumerate 0 lines))
              (enumerate 0 text_lines))))"

text \<open>The f-string of lines 220 and 281.\<close>

definition combined_image_name :: "string \<Rightarrow> string \<Rightarrow> string \<Rightarrow> string \<Rightarrow> int \<Rightarrow> string" where
  "combined_image_name glocation component defect_line1 defect_line2 idd =
     glocation @ ''_'' @ component @ ''_'' @ defect_line1 @ ''_'' @ defect_line2 @ ''_''
       @ str_int idd @ ''.png''"

definition create_standardized_overlay_image ::
  "pillow \<Rightarrow> files \<Rightarrow> string \<Rightarrow> real \<Rightarrow> real \<Rightarrow> string \<Rightarrow> string \<Rightarrow> real \<Rightarrow>
   string \<Rightarrow> string \<Rightarrow> string \<Rightarrow> string \<Rightarrow> int \<Rightarrow> string \<Rightarrow> py_error + string \<times> files" where
  "create_standardized_overlay_image pil fs image_path cord1 cord2 date_month_year
     hour_min_second angle glocation component defect_line1 defect_line2 idd output_folder =
     bindE (Image_open fs image_path) (\<lambda>img.
       let base_width = img_width img;
           base_height = img_height img;
           text_size = py_int (fl (fl (of_int base_height) * fl 0.027));
           box_height = base_height div 12;
           overlay_image = Image_new ''RGBA'' (base_width, base_height) (255, 255, 255, 0);
           transparency = 128
       in bindE (FreeTypeFont pil text_size) (\<lambda>font.
            let top_boxes_text =
                  [[''DIRECTION'', format_fixed 1 angle @ '' deg(T)''],
                   [format_fixed 5 cord1 @ [degree_sign] @ ''S'',
                    format_fixed 5 cord2 @ [degree_sign] @ ''E''],
                   [''ACCURACY 10 m'', ''DATUM WGS84'']];
                bottom_boxes_text =
                  [[glocation, component],
                   [defect_line1, defect_line2],
                   [date_month_year, hour_min_second @ ''+10:00'']]
            in bindE (draw_boxes_with_text base_width box_height font transparency
                        0 top_boxes_text) (\<lambda>top_ops.
               bindE (draw_boxes_with_text base_width box_height font transparency
                        (base_height - box_height) bottom_boxes_text) (\<lambda>bottom_ops.
               let overlay_image = draw (draw overlay_image top_ops) bottom_ops
               in bindE (Image_open fs image_path) (\<lambda>base_img.
                  bindE (alpha_composite (convert base_img ''RGBA'') overlay_image)
                    (\<lambda>combined_image.
                      save_combined_image pil fs output_folder
                        (combined_image_name glocation component defect_line1 defect_line2 idd)
                        combined_image))))))"

subsection \<open>Overlay renderer, partial variant\<close>

text \<open>The alpha of mask column \<open>i\<close> (the body of the loop over \<^verbatim>\<open>range(box_width)\<close>), each
  float operation rounded: the product with 0.75, the quotient \<open>t\<close>, the difference
  \<open>1 - t\<close> and the product with the maximum alpha.\<close>

definition mask_column_alpha :: "int \<Rightarrow> int \<Rightarrow> int \<Rightarrow> int" where
  "mask_column_alpha box_width max_alpha i =
     (let full_shade_end = py_int (fl (fl (of_int box_width) * fl 0.75));
          gradient_width = max 1 (box_width - full_shade_end)
      in if i < full_shade_end then max_alpha
         else
           let t = fl (of_int (i - full_shade_end) / of_int gradient_width)
           in py_int (fl (fl (of_int max_alpha) * fl (1 - t))))"

text \<open>The mask as \<^verbatim>\<open>mask_pixels[i, j]\<close>: a list of columns, each a list of rows.\<close>

definition mask_pixels :: "int \<Rightarrow> int \<Rightarrow> int \<Rightarrow> int list list" where
  "mask_pixels box_width box_height max_alpha =
     map (\<lambda>i. replicate (nat box_height) (mask_column_alpha box_width max_alpha (int i)))
       [0 ..< nat box_width]"

definition bottom_left_text_line ::
  "font \<Rightarrow> int \<Rightarrow> int \<Rightarrow> int \<Rightarrow> int \<Rightarrow> nat \<Rightarrow> nat \<Rightarrow> string \<Rightarrow> draw_op" where
  "bottom_left_text_line font x_position y_position box_width box_height len_lines j line =
     (let (b0, b1, b2, b3) = font line;
          text_width = b2 - b0;
          text_height = b3 - b1;
          text_x = x_position + (box_width - text_width) div 2;
          text_y = y_position + (box_height - text_height * int len_lines) div 2
                     + int j * text_height
      in DrawText (text_x, text_y) line)"

text \<open>\<^verbatim>\<open>draw_bottom_left_box\<close> changes both the overlay and the base image: it returns the
  pair. Its first step, the blur, raises ValueError for a base image whose mode the blur
  does not accept; the definition gives what the function returns for the other modes,
  and the model of its caller carries the raise.\<close>

definition draw_bottom_left_box ::
  "image \<Rightarrow> image \<Rightarrow> int \<Rightarrow> int \<Rightarrow> real \<Rightarrow> font \<Rightarrow> int \<Rightarrow> string \<Rightarrow> string \<Rightarrow> image \<times> image" where
  "draw_bottom_left_box overlay_image base_img base_width base_height box_height font
     transparency glocation component =
     (let box_height = round_half_even box_height;
          x_position = 0;
          box_width = base_width div 3;
          y_position = base_height - box_height;
          max_alpha = max 0 (min transparency 255);
          box = (x_position, y_position, x_position + box_width, y_position + box_height);
          base_img = draw base_img [GaussianBlur box 20];
          mask = mask_pixels box_width box_height max_alpha;
          shade = map (map (\<lambda>a. (0, 0, 0, a))) mask;
          overlay_image = draw overlay_image [PasteShade (x_position, y_position) shade];
          lines = [glocation, component];
          overlay_image = draw overlay_image
            (map (\<lambda>(j, line).
               bottom_left_text_line font x_position y_position box_width box_height
                 (length lines) j line)
             (enumerate 0 lines))
      in (overlay_image, base_img))"

definition create_partial_overlay_image ::
  "pillow \<Rightarrow> files \<Rightarrow> string \<Rightarrow> real \<Rightarrow> real \<Rightarrow> string \<Rightarrow> string \<Rightarrow> real \<Rightarrow>
   string \<Rightarrow> string \<Rightarrow> string \<Rightarrow> string \<Rightarrow> int \<Rightarrow> string \<Rightarrow> py_error + string \<times> files" where
  "create_partial_overlay_image pil fs image_path cord1 cord2 date_month_year
     hour_min_second angle glocation component defect_line1 defect_line2 idd output_folder =
     bindE (Image_open fs image_path) (\<lambda>base_img.
       let base_width = img_width base_img;
           base_height = img_height base_img;
           overlay_image = Image_new ''RGBA'' (base_width, base_height) (255, 255, 255, 0);
           text_size = py_int (fl (fl (of_int base_height) * fl 0.035));
           box_height = fl (fl (of_int (base_height div 12)) - fl (of_int base_height / 240));
           transparency = 200
       in bindE (FreeTypeFont pil text_size) (\<lambda>font.
          bindE (if blur_supported (img_mode base_img)
                 then Inr (draw_bottom_left_box overlay_image base_img base_width base_height
                             box_height font transparency glocation component)
                 else Inl ValueError) (\<lambda>(overlay_image, base_img).
          bindE (alpha_composite (convert base_img ''RGBA'') overlay_image)
            (\<lambda>combined_image.
              save_combined_image pil fs output_folder
                (combined_image_name glocation component defect_line1 defect_line2 idd)
                combined_image))))"

subsection \<open>Spreadsheet rows\<close>

text \<open>A spreadsheet cell of the rotation column holds a number, or the text that
  \<^verbatim>\<open>get_image_rotation\<close> writes for an image without EXIF.\<close>

datatype cell = Num int | Str string

record row =
  row_image_path :: string
  row_glocation :: string
  row_component :: string
  row_defect_line1 :: string
  row_defect_line2 :: string
  row_idd :: int
  row_rotation :: cell

subsection \<open>Rotation\<close>

text \<open>\<^verbatim>\<open>image.rotate\<close> reduces the angle modulo 360 first, which raises for a string.\<close>

definition copy_and_rotate :: "pillow \<Rightarrow> files \<Rightarrow> string \<Rightarrow> cell \<Rightarrow> py_error + string \<times> files" where
  "copy_and_rotate pil fs image_path rotation_angle =
     bindE (Image_open fs image_path) (\<lambda>image.
       let exif_data = img_exif image
       in bindE (case rotation_angle of
                   Num a \<Rightarrow> Inr (Image_rotate pil image a)
                 | Str s \<Rightarrow> Inl TypeError) (\<lambda>rotated_image.
            let (base, ext) = os_path_splitext image_path;
                new_filename = base @ ''_rotated'' @ ext
            in bindE (save_jpeg fs new_filename rotated_image exif_data) (\<lambda>fs'.
                 Inr (new_filename, fs'))))"

subsection \<open>Batch drivers\<close>

text \<open>The tuple of the \<^verbatim>\<open>except\<close> branch. Its coordinates are float literals, which the
  renderer only prints, through \<open>format_fixed\<close>.\<close>

definition fallback_info :: comments_info where
  "fallback_info = (32.25315, 115.76708, ''2024:06:12'', ''2024:06:12'', - 75)"

text \<open>The \<^verbatim>\<open>try\<close> statement: unpacking \<^verbatim>\<open>None\<close> raises inside the \<^verbatim>\<open>try\<close>, and the bare
  \<^verbatim>\<open>except\<close> catches that and every exception of the extractor.\<close>

definition try_get_comments_info :: "files \<Rightarrow> string \<Rightarrow> comments_info" where
  "try_get_comments_info fs image_path =
     (case get_comments_info fs image_path of
        Inr (Some info) \<Rightarrow> info
      | Inr None \<Rightarrow> fallback_info
      | Inl e \<Rightarrow> fallback_info)"

text \<open>The rotation step that opens both loop bodies.\<close>

definition rotate_if_needed :: "pillow \<Rightarrow> files \<Rightarrow> row \<Rightarrow> py_error + string \<times> files" where
  "rotate_if_needed pil fs r =
     (if row_rotation r \<noteq> Num 0
      then copy_and_rotate pil fs (row_image_path r) (row_rotation r)
      else Inr (row_image_path r, fs))"

fun process_images_from_excel_with_rotation ::
  "pillow \<Rightarrow> files \<Rightarrow> row list \<Rightarrow> string \<Rightarrow> py_error + files" where
  "process_images_from_excel_with_rotation pil fs [] output_folder = Inr fs"
| "process_images_from_excel_with_rotation pil fs (r # df) output_folder =
     bindE (rotate_if_needed pil fs r) (\<lambda>(image_path, fs).
       let (cord1, cord2, date_month_year, hour_min_second, angle) =
             try_get_comments_info fs image_path
       in bindE (create_standardized_overlay_image pil fs image_path cord1 cord2
                   date_month_year hour_min_second angle (row_glocation r) (row_component r)
                   (row_defect_line1 r) (row_defect_line2 r) (row_idd r) output_folder)
            (\<lambda>(out, fs). process_images_from_excel_with_rotation pil fs df output_folder))"

fun process_partial_images_from_excel_with_rotation ::
  "pillow \<Rightarrow> files \<Rightarrow> row list \<Rightarrow> string \<Rightarrow> py_error + files" where
  "process_partial_images_from_excel_with_rotation pil fs [] output_folder = Inr fs"
| "process_partial_images_from_excel_with_rotation pil fs (r # df) output_folder =
     bindE (rotate_if_needed pil fs r) (\<lambda>(image_path, fs).
       let (cord1, cord2, date_month_year, hour_min_second, angle) =
             try_get_comments_info fs image_path
       in bindE (create_partial_overlay_image pil fs image_path cord1 cord2
                   date_month_year hour_min_second angle (row_glocation r) (row_component r)
                   (row_defect_line1 r) (row_defect_line2 r) (row_idd r) output_folder)
            (\<lambda>(out, fs). process_partial_images_from_excel_with_rotation pil fs df output_folder))"

subsection \<open>Vocabulary of the properties\<close>

text \<open>The exact value of an EXIF number, and the numbers whose conversion divides.\<close>

fun number_value :: "exif_number \<Rightarrow> real" where
  "number_value (Rational num den) = of_int num / of_int den"
| "number_value (Number v) = v"

fun nonzero_denominator :: "exif_number \<Rightarrow> bool" where
  "nonzero_denominator (Rational num den) = (den \<noteq> 0)"
| "nonzero_denominator (Number v) = True"

text \<open>The width and the height that the code reads off \<^verbatim>\<open>draw.textbbox((0, 0), line)\<close>.\<close>

definition text_width :: "font \<Rightarrow> string \<Rightarrow> int" where
  "text_width font line = (case font line of (b0, b1, b2, b3) \<Rightarrow> b2 - b0)"

definition text_height :: "font \<Rightarrow> string \<Rightarrow> int" where
  "text_height font line = (case font line of (b0, b1, b2, b3) \<Rightarrow> b3 - b1)"

text \<open>Sample inputs: a geotagged photo on the equator at 90 degrees east, a photo without
  EXIF, a photo whose GPS directory holds the version tag only, and a font file that loads
  at every size with a fixed-pitch metric.\<close>

definition sample_gps :: "nat \<rightharpoonup> exif_number list" where
  "sample_gps =
     [2 \<mapsto> [Rational 0 1, Rational 0 1, Rational 0 1],
      4 \<mapsto> [Rational 90 1, Rational 0 1, Rational 0 1]]"

definition sample_photo :: image where
  "sample_photo =
     \<lparr>img_class = JpegImageFile, img_width = 1200, img_height = 960, img_mode = ''RGB'',
      img_exif = Some [GPS_TAG \<mapsto> GPSInfo sample_gps,
                       DATETIME_ORIGINAL \<mapsto> Ascii ''2025:11:24 10:23:45''],
      img_layers = [Photo 0]\<rparr>"

definition plain_photo :: image where
  "plain_photo =
     \<lparr>img_class = JpegImageFile, img_width = 1200, img_height = 960, img_mode = ''RGB'',
      img_exif = None, img_layers = [Photo 1]\<rparr>"

definition version_only_photo :: image where
  "version_only_photo =
     \<lparr>img_class = JpegImageFile, img_width = 1200, img_height = 960, img_mode = ''RGB'',
      img_exif = Some [GPS_TAG \<mapsto> GPSInfo [0 \<mapsto> [Number 2, Number 0, Number 0, Number 0]],
                       DATETIME_ORIGINAL \<mapsto> Ascii ''2025:11:24 10:23:45''],
      img_layers = [Photo 2]\<rparr>"

definition sample_font :: "int \<Rightarrow> font" where
  "sample_font pt line = (0, 0, pt * int (length line), 2 * pt)"

definition sample_pillow :: pillow where
  "sample_pillow =
     \<lparr>font_file = (\<lambda>pt. Some (sample_font pt)), expanded_size = (\<lambda>a wh. wh),
      directories = {''photos''}\<rparr>"

definition row_a :: row where
  "row_a =
     \<lparr>row_image_path = ''photos/a.jpg'', row_glocation = ''Microcell Building'',
      row_component = ''Monorail 5024'', row_defect_line1 = ''Corrosion and '',
      row_defect_line2 = ''dmg in PCaaaa'', row_idd = 3, row_rotation = Num 0\<rparr>"

definition row_b :: row where
  "row_b = row_a\<lparr>row_image_path := ''photos/b.jpg'', row_idd := 4\<rparr>"

definition row_missing :: row where
  "row_missing = row_a\<lparr>row_image_path := ''photos/missing.jpg'', row_idd := 5\<rparr>"

definition sample_files :: files where
  "sample_files =
     [''photos/a.jpg'' \<mapsto> sample_photo,
      ''photos/b.jpg'' \<mapsto> plain_photo,
      ''photos/c.jpg'' \<mapsto> version_only_photo]"

section \<open>Properties\<close>

subsection \<open>Auxiliary facts\<close>

lemma bindE_Inr [simp]: "bindE (Inr v) f = f v"
  by (simp add: bindE_def)

lemma bindE_Inl [simp]: "bindE (Inl e) f = Inl e"
  by (simp add: bindE_def)

lemma bindE_eq_Inr: "bindE m f = Inr r \<longleftrightarrow> (\<exists>v. m = Inr v \<and> f v = Inr r)"
  by (cases m) simp_all

lemma round_half_even_near: "\<bar>of_int (round_half_even x) - x\<bar> \<le> 1 / 2"
proof -
  have "of_int \<lfloor>x\<rfloor> \<le> x" "x < of_int \<lfloor>x\<rfloor> + 1" by linarith+
  then show ?thesis
    unfolding round_half_even_def Let_def by (simp add: abs_if) linarith
qed

lemma round_half_even_of_int [simp]: "round_half_even (of_int k) = k"
  by (simp add: round_half_even_def)

lemma floor_log2_bracket:
  assumes "x \<noteq> 0"
  shows "2 powi \<lfloor>log 2 \<bar>x\<bar>\<rfloor> \<le> \<bar>x\<bar>" and "\<bar>x\<bar> < 2 powi (\<lfloor>log 2 \<bar>x\<bar>\<rfloor> + 1)"
proof -
  have pos: "0 < \<bar>x\<bar>" using assms by simp
  from floor_log_eq_powr_iff [OF pos, of 2 "\<lfloor>log 2 \<bar>x\<bar>\<rfloor>"]
  have "2 powr of_int \<lfloor>log 2 \<bar>x\<bar>\<rfloor> \<le> \<bar>x\<bar> \<and> \<bar>x\<bar> < 2 powr (of_int \<lfloor>log 2 \<bar>x\<bar>\<rfloor> + 1)"
    by simp
  then show "2 powi \<lfloor>log 2 \<bar>x\<bar>\<rfloor> \<le> \<bar>x\<bar>" and "\<bar>x\<bar> < 2 powi (\<lfloor>log 2 \<bar>x\<bar>\<rfloor> + 1)"
    using powr_real_of_int' [of 2 "\<lfloor>log 2 \<bar>x\<bar>\<rfloor>"] powr_real_of_int' [of 2 "\<lfloor>log 2 \<bar>x\<bar>\<rfloor> + 1"]
    by simp_all
qed

lemma floor_log2_eqI:
  assumes "2 powi e \<le> \<bar>x\<bar>" and "\<bar>x\<bar> < 2 powi (e + 1)"
  shows "\<lfloor>log 2 \<bar>x\<bar>\<rfloor> = e"
proof -
  have "0 < (2::real) powi e" by simp
  with assms(1) have pos: "0 < \<bar>x\<bar>" by linarith
  have "2 powr of_int e \<le> \<bar>x\<bar> \<and> \<bar>x\<bar> < 2 powr (of_int e + 1)"
    using assms powr_real_of_int' [of 2 e] powr_real_of_int' [of 2 "e + 1"] by simp
  then show ?thesis
    using floor_log_eq_powr_iff [OF pos, of 2 e] by simp
qed

lemma floor_log2_le:
  assumes "x \<noteq> 0" and "\<bar>x\<bar> \<le> 2 powi k"
  shows "\<lfloor>log 2 \<bar>x\<bar>\<rfloor> \<le> k"
proof (rule ccontr)
  assume "\<not> \<lfloor>log 2 \<bar>x\<bar>\<rfloor> \<le> k"
  then have "k + 1 \<le> \<lfloor>log 2 \<bar>x\<bar>\<rfloor>" by simp
  then have "(2::real) powi (k + 1) \<le> 2 powi \<lfloor>log 2 \<bar>x\<bar>\<rfloor>"
    by (intro power_int_increasing) simp_all
  also have "\<dots> \<le> \<bar>x\<bar>" by (rule floor_log2_bracket(1) [OF assms(1)])
  finally have "(2::real) powi (k + 1) \<le> 2 powi k" using assms(2) by simp
  moreover have "(2::real) powi k < 2 powi (k + 1)"
    by (simp add: power_int_add)
  ultimately show False by simp
qed

lemma fl_zero [simp]: "fl 0 = 0"
  by (simp add: fl_def)

text \<open>The rounding error is at most half a unit in the last place.\<close>

lemma fl_error:
  assumes "\<bar>x\<bar> \<le> 2 powi k" and "- 1022 \<le> k"
  shows "\<bar>fl x - x\<bar> \<le> 2 powi (k - 53)"
proof (cases "x = 0")
  case True
  then show ?thesis by simp
next
  case False
  define e where "e = max \<lfloor>log 2 \<bar>x\<bar>\<rfloor> (- 1022)"
  define u :: real where "u = 2 powi (e - 52)"
  have u: "0 < u" by (simp add: u_def)
  have ek: "e \<le> k" using floor_log2_le [OF False assms(1)] assms(2) by (simp add: e_def)
  have fl: "fl x = of_int (round_half_even (x / u)) * u"
    using False by (simp add: fl_def e_def u_def Let_def)
  have "fl x - x = (of_int (round_half_even (x / u)) - x / u) * u"
    using u by (simp add: fl field_simps)
  then have "\<bar>fl x - x\<bar> = \<bar>of_int (round_half_even (x / u)) - x / u\<bar> * u"
    using u by (simp add: abs_mult)
  also have "\<dots> \<le> (1 / 2) * u"
    using round_half_even_near [of "x / u"] u by (intro mult_right_mono) simp_all
  also have "\<dots> = 2 powi (e - 53)"
    by (simp add: u_def power_int_diff)
  also have "\<dots> \<le> 2 powi (k - 53)"
    using ek by (intro power_int_increasing) simp_all
  finally show ?thesis .
qed

text \<open>A number with at most 53 significant bits is a double.\<close>

lemma fl_exact:
  assumes "\<bar>n\<bar> < 2 ^ 53" and "- 1074 \<le> j"
  shows "fl (of_int n * 2 powi j) = of_int n * 2 powi j"
proof (cases "n = 0")
  case True
  then show ?thesis by simp
next
  case False
  let ?x = "of_int n * (2::real) powi j"
  define b where "b = \<lfloor>log 2 \<bar>of_int n :: real\<bar>\<rfloor>"
  have n0: "(of_int n :: real) \<noteq> 0" using False by simp
  have b1: "2 powi b \<le> \<bar>of_int n :: real\<bar>" and b2: "\<bar>of_int n :: real\<bar> < 2 powi (b + 1)"
    unfolding b_def by (rule floor_log2_bracket [OF n0])+
  have bub: "b \<le> 52"
  proof (rule ccontr)
    assume "\<not> b \<le> 52"
    then have "53 \<le> b" by simp
    then have "(2::real) powi 53 \<le> 2 powi b"
      by (intro power_int_increasing) simp_all
    with b1 have "(2::real) ^ 53 \<le> \<bar>of_int n\<bar>" by simp
    then have "(2::int) ^ 53 \<le> \<bar>n\<bar>"
      by (metis of_int_abs of_int_le_iff of_int_numeral of_int_power)
    with assms(1) show False by simp
  qed
  have xne: "?x \<noteq> 0" using False by simp
  have ax: "\<bar>?x\<bar> = \<bar>of_int n\<bar> * 2 powi j" by (simp add: abs_mult)
  have "\<lfloor>log 2 \<bar>?x\<bar>\<rfloor> = b + j"
  proof (rule floor_log2_eqI)
    show "2 powi (b + j) \<le> \<bar>?x\<bar>"
      unfolding ax using b1 by (simp add: power_int_add mult_right_mono)
    show "\<bar>?x\<bar> < 2 powi (b + j + 1)"
      unfolding ax using b2 by (simp add: power_int_add mult_strict_right_mono algebra_simps)
  qed
  then have lg: "\<lfloor>log 2 \<bar>?x\<bar>\<rfloor> = b + j" .
  define e where "e = max (b + j) (- 1022)"
  define m where "m = j - e + 52"
  have m0: "0 \<le> m" using bub assms(2) by (simp add: m_def e_def max_def)
  have quot: "?x / 2 powi (e - 52) = of_int (n * 2 ^ nat m)"
  proof -
    have "?x / 2 powi (e - 52) = of_int n * 2 powi (j - (e - 52))"
      by (simp add: power_int_diff)
    also have "j - (e - 52) = m" by (simp add: m_def)
    also have "(2::real) powi m = 2 ^ nat m" using m0 by (simp add: power_int_def)
    finally show ?thesis by simp
  qed
  have "fl ?x = of_int (round_half_even (?x / 2 powi (e - 52))) * 2 powi (e - 52)"
    using xne lg by (simp only: fl_def e_def Let_def if_False)
  also have "\<dots> = of_int (n * 2 ^ nat m) * 2 powi (e - 52)"
    by (simp only: quot round_half_even_of_int)
  also have "\<dots> = of_int n * (2 powi m * 2 powi (e - 52))"
    using m0 by (simp add: power_int_def)
  also have "2 powi m * 2 powi (e - 52) = (2::real) powi j"
    by (simp add: m_def flip: power_int_add)
  finally show ?thesis .
qed

lemma fl_of_int:
  assumes "\<bar>n\<bar> < 2 ^ 53"
  shows "fl (of_int n) = of_int n"
  using fl_exact [OF assms, of 0] by simp


lemma fl_halves:
  assumes "\<bar>n\<bar> < 2 ^ 53"
  shows "fl (of_int n / 2) = of_int n / 2"
  using fl_exact [OF assms, of "- 1"] by (simp add: power_int_minus field_simps)

lemma fl_eval:
  assumes "2 powi e \<le> \<bar>x\<bar>" and "\<bar>x\<bar> < 2 powi (e + 1)" and "- 1022 \<le> e"
  shows "fl x = of_int (round_half_even (x / 2 powi (e - 52))) * 2 powi (e - 52)"
proof -
  have "0 < (2::real) powi e" by simp
  with assms(1) have "0 < \<bar>x\<bar>" by linarith
  then have "x \<noteq> 0" by simp
  moreover have "max \<lfloor>log 2 \<bar>x\<bar>\<rfloor> (- 1022) = e"
    using floor_log2_eqI [OF assms(1,2)] assms(3) by simp
  ultimately show ?thesis by (simp add: fl_def Let_def)
qed


lemma fl_numeral [simp]:
  "\<bar>numeral n :: int\<bar> < 2 ^ 53 \<Longrightarrow> fl (numeral n) = numeral n"
  using fl_of_int [of "numeral n"] by simp

lemma fl_neg_numeral [simp]:
  "\<bar>numeral n :: int\<bar> < 2 ^ 53 \<Longrightarrow> fl (- numeral n) = - numeral n"
  using fl_of_int [of "- numeral n"] by simp

lemma fl_one [simp]: "fl 1 = 1"
  using fl_of_int [of 1] by simp

lemma rational_to_float_value:
  "nonzero_denominator e \<Longrightarrow> rational_to_float e = Inr (fl (number_value e))"
  by (cases e) simp_all

lemma rational_to_float_raises:
  "\<not> nonzero_denominator e \<Longrightarrow> rational_to_float e = Inl ZeroDivisionError"
  by (cases e) simp_all

lemma get_decimal_from_dms_value:
  assumes "nonzero_denominator d" "nonzero_denominator m" "nonzero_denominator s"
  shows "get_decimal_from_dms [d, m, s]
           = Inr (fl (of_int (round_half_even
                (fl (fl (fl (number_value d) + fl (fl (number_value m) / 60))
                       + fl (fl (number_value s) / 3600)) * 100000)) / 100000))"
  using assms
  by (simp add: get_decimal_from_dms_def index_def rational_to_float_value py_round_def)

text \<open>The float sum and its rounding stay close to the exact sum.\<close>

lemma abs_diff_leD:
  fixes x y c :: real
  shows "\<bar>x - y\<bar> \<le> c \<Longrightarrow> x \<le> y + c \<and> y \<le> x + c"
  by linarith

lemma abs_leD2:
  fixes x c :: real
  shows "\<bar>x\<bar> \<le> c \<Longrightarrow> x \<le> c \<and> - c \<le> x"
  by linarith

lemma dms_error:
  fixes vd vm vs :: real
  assumes "\<bar>vd\<bar> \<le> 2 ^ 20" "\<bar>vm\<bar> \<le> 2 ^ 20" "\<bar>vs\<bar> \<le> 2 ^ 20"
  shows "\<bar>fl (of_int (round_half_even
                (fl (fl (fl vd + fl (fl vm / 60)) + fl (fl vs / 3600)) * 100000)) / 100000)
          - (vd + vm / 60 + vs / 3600)\<bar> \<le> 51 / 10000000"
proof -
  define D where "D = fl vd"
  define Mm where "Mm = fl vm"
  define M where "M = fl (Mm / 60)"
  define Sm where "Sm = fl vs"
  define Sc where "Sc = fl (Sm / 3600)"
  define A where "A = fl (D + M)"
  define S where "S = fl (A + Sc)"
  define K where "K = round_half_even (S * 100000)"
  define r where "r = fl (of_int K / 100000)"
  have vb: "\<bar>vd\<bar> \<le> 1048576" "\<bar>vm\<bar> \<le> 1048576" "\<bar>vs\<bar> \<le> 1048576"
    using assms by simp_all
  note vb' = vb [THEN abs_leD2]
  have "\<bar>D - vd\<bar> \<le> 1 / 8589934592"
    using fl_error [of vd 20] vb(1) by (simp add: D_def power_int_minus)
  note d = this [THEN abs_diff_leD]
  have "\<bar>Mm - vm\<bar> \<le> 1 / 8589934592"
    using fl_error [of vm 20] vb(2) by (simp add: Mm_def power_int_minus)
  note mm = this [THEN abs_diff_leD]
  have "\<bar>Sm - vs\<bar> \<le> 1 / 8589934592"
    using fl_error [of vs 20] vb(3) by (simp add: Sm_def power_int_minus)
  note sm = this [THEN abs_diff_leD]
  have "Mm / 60 \<le> 32768 \<and> - 32768 \<le> Mm / 60" using mm vb'(2) by linarith
  then have "\<bar>Mm / 60\<bar> \<le> 32768" by linarith
  then have "\<bar>M - Mm / 60\<bar> \<le> 1 / 274877906944"
    using fl_error [of "Mm / 60" 15] by (simp add: M_def power_int_minus)
  note m = this [THEN abs_diff_leD]
  have "Sm / 3600 \<le> 512 \<and> - 512 \<le> Sm / 3600" using sm vb'(3) by linarith
  then have "\<bar>Sm / 3600\<bar> \<le> 512" by linarith
  then have "\<bar>Sc - Sm / 3600\<bar> \<le> 1 / 17592186044416"
    using fl_error [of "Sm / 3600" 9] by (simp add: Sc_def power_int_minus)
  note sc = this [THEN abs_diff_leD]
  have "D + M \<le> 2097152 \<and> - 2097152 \<le> D + M" using d m mm vb'(1,2) by linarith
  then have "\<bar>D + M\<bar> \<le> 2097152" by linarith
  then have "\<bar>A - (D + M)\<bar> \<le> 1 / 4294967296"
    using fl_error [of "D + M" 21] by (simp add: A_def power_int_minus)
  note a = this [THEN abs_diff_leD]
  have "A + Sc \<le> 4194304 \<and> - 4194304 \<le> A + Sc" using a d m mm sc sm vb' by linarith
  then have "\<bar>A + Sc\<bar> \<le> 4194304" by linarith
  then have "\<bar>S - (A + Sc)\<bar> \<le> 1 / 2147483648"
    using fl_error [of "A + Sc" 22] by (simp add: S_def power_int_minus)
  note s = this [THEN abs_diff_leD]
  have "\<bar>of_int K - S * 100000\<bar> \<le> 1 / 2"
    unfolding K_def by (rule round_half_even_near)
  then have "\<bar>of_int K / 100000 - S\<bar> \<le> 1 / 200000" by linarith
  note k = this [THEN abs_diff_leD]
  have "of_int K / 100000 \<le> (8388608::real) \<and> - 8388608 \<le> (of_int K / 100000 :: real)"
    using k s a d m mm sc sm vb' by linarith
  then have "\<bar>of_int K / 100000 :: real\<bar> \<le> 8388608" by linarith
  then have "\<bar>r - of_int K / 100000\<bar> \<le> 1 / 1073741824"
    using fl_error [of "of_int K / 100000" 23] by (simp add: r_def power_int_minus)
  note r = this [THEN abs_diff_leD]
  have "r - (vd + vm / 60 + vs / 3600) \<le> 51 / 10000000
      \<and> - (51 / 10000000) \<le> r - (vd + vm / 60 + vs / 3600)"
    using r k s a d m mm sc sm by linarith
  then have "\<bar>r - (vd + vm / 60 + vs / 3600)\<bar> \<le> 51 / 10000000" by linarith
  then show ?thesis
    by (simp only: r_def K_def S_def A_def Sc_def Sm_def M_def Mm_def D_def)
qed

lemma py_float_mod_range:
  assumes "0 < y"
  shows "\<exists>r. py_float_mod x y = Inr r \<and> 0 \<le> r \<and> r < y"
proof -
  let ?q = "\<lfloor>x / y\<rfloor>"
  have lo: "of_int ?q \<le> x / y" by (rule of_int_floor_le)
  have hi: "x / y < of_int ?q + 1" by linarith
  have "of_int ?q * y \<le> x"
    by (rule pos_le_divide_eq [OF assms, THEN iffD1, OF lo])
  moreover have "x < (of_int ?q + 1) * y"
    by (rule pos_divide_less_eq [OF assms, THEN iffD1, OF hi])
  ultimately have "0 \<le> x - y * of_int ?q \<and> x - y * of_int ?q < y"
    by (simp add: algebra_simps)
  with assms show ?thesis by (simp add: py_float_mod_def)
qed

lemma bearing_range:
  "\<exists>b. calculate_initial_compass_bearing lat1 lon1 lat2 lon2 = Inr b \<and> 0 \<le> b \<and> b < 360"
  unfolding calculate_initial_compass_bearing_def Let_def
  by (rule py_float_mod_range) simp

lemma bearing_to_origin: "calculate_initial_compass_bearing 0 90 0 0 = Inr 270"
  by (simp add: calculate_initial_compass_bearing_def radians_def degrees_def atan2_def
      py_float_mod_def)

lemma self_bearing: "calculate_initial_compass_bearing 0 90 0 90 = Inr 0"
  by (simp add: calculate_initial_compass_bearing_def radians_def degrees_def atan2_def
      py_float_mod_def)

lemma py_int_of_int [simp]: "py_int (of_int k) = k"
  by (simp add: py_int_def)











lemma get_decimal_from_dms_raises:
  assumes "\<not> (nonzero_denominator d \<and> nonzero_denominator m \<and> nonzero_denominator s)"
  shows "get_decimal_from_dms [d, m, s] = Inl ZeroDivisionError"
proof (cases "nonzero_denominator d")
  case False
  then show ?thesis
    by (simp add: get_decimal_from_dms_def index_def rational_to_float_raises)
next
  case d: True
  show ?thesis
  proof (cases "nonzero_denominator m")
    case False
    with d show ?thesis
      by (simp add: get_decimal_from_dms_def index_def rational_to_float_raises
          rational_to_float_value)
  next
    case True
    with d assms have "\<not> nonzero_denominator s" by simp
    with d True show ?thesis
      by (simp add: get_decimal_from_dms_def index_def rational_to_float_raises
          rational_to_float_value)
  qed
qed

lemma fl_half: "fl (1 / 2) = 1 / 2"
  using fl_halves [of 1] by simp

lemma fl_63_halves: "fl (63 / 2) = 63 / 2"
  using fl_halves [of 63] by simp

lemma dms_31_30_numbers: "get_decimal_from_dms [Number 31, Number 30, Number 0] = Inr 31.5"
  by (simp add: get_decimal_from_dms_def index_def py_round_def round_half_even_def
      fl_half fl_63_halves)

lemma dms_31_30_pairs:
  "get_decimal_from_dms [Rational 31 1, Rational 30 1, Rational 0 1] = Inr 31.5"
  by (simp add: get_decimal_from_dms_def index_def py_round_def round_half_even_def
      fl_half fl_63_halves)

lemma get_comments_info_missing_file:
  "fs image_path = None \<Longrightarrow> get_comments_info fs image_path = Inl FileNotFoundError"
  by (simp add: get_comments_info_def Image_open_def)

lemma get_comments_info_no_method:
  assumes "fs image_path = Some img" and "getexif_or_empty img = Inl e"
  shows "get_comments_info fs image_path = Inl e"
  using assms by (simp add: get_comments_info_def Image_open_def)

lemma get_comments_info_absent:
  assumes "fs image_path = Some img" and "getexif_or_empty img = Inr info"
    and "info GPS_TAG = None \<or> info DATETIME_ORIGINAL = None"
  shows "get_comments_info fs image_path = Inr None"
  using assms
  by (auto simp: get_comments_info_def Image_open_def Let_def split: option.splits)

lemma get_comments_info_present:
  assumes "fs image_path = Some img" and "getexif_or_empty img = Inr info"
    and "info GPS_TAG = Some gps"
    and "info DATETIME_ORIGINAL = Some dt"
  shows "get_comments_info fs image_path =
     bindE (case gps of GPSInfo d \<Rightarrow> Inr d | Ascii _ \<Rightarrow> Inl TypeError) (\<lambda>data_dict.
     bindE (bindE (lookup data_dict 2) get_decimal_from_dms) (\<lambda>cord1.
     bindE (bindE (lookup data_dict 4) get_decimal_from_dms) (\<lambda>cord2.
     bindE (case dt of Ascii s \<Rightarrow> Inr s | GPSInfo _ \<Rightarrow> Inl TypeError) (\<lambda>date_time_str.
     bindE (calculate_initial_compass_bearing cord1 cord2 0 0) (\<lambda>angle.
       Inr (Some (cord1, cord2,
                  replace CHR '':'' CHR ''-'' (hd (split CHR '' '' date_time_str)),
                  (if length (split CHR '' '' date_time_str) > 1
                   then split CHR '' '' date_time_str ! 1 else []),
                  angle)))))))"
  using assms
  by (simp add: get_comments_info_def Image_open_def Let_def)

lemma get_comments_info_Some_bearing:
  assumes "get_comments_info fs image_path = Inr (Some (cord1, cord2, d, t, angle))"
  shows "calculate_initial_compass_bearing cord1 cord2 0 0 = Inr angle"
proof (cases "fs image_path")
  case None
  with assms show ?thesis by (simp add: get_comments_info_missing_file)
next
  case (Some img)
  show ?thesis
  proof (cases "getexif_or_empty img")
    case (Inl e)
    with Some assms show ?thesis by (simp add: get_comments_info_no_method)
  next
    case (Inr info)
    show ?thesis
    proof (cases "info GPS_TAG = None \<or> info DATETIME_ORIGINAL = None")
      case True
      with Some Inr assms show ?thesis by (simp add: get_comments_info_absent)
    next
      case False
      then obtain gps dt where "info GPS_TAG = Some gps" "info DATETIME_ORIGINAL = Some dt"
        by auto
      from assms [unfolded get_comments_info_present
          [where fs = fs and image_path = image_path and img = img and info = info
             and gps = gps and dt = dt, OF Some Inr this]]
      show ?thesis by (auto simp: bindE_eq_Inr)
    qed
  qed
qed

lemma sample_lat: "get_decimal_from_dms [Rational 0 1, Rational 0 1, Rational 0 1] = Inr 0"
  by (simp add: get_decimal_from_dms_def index_def py_round_def round_half_even_def)

lemma sample_lon: "get_decimal_from_dms [Rational 90 1, Rational 0 1, Rational 0 1] = Inr 90"
  by (simp add: get_decimal_from_dms_def index_def py_round_def round_half_even_def)

lemma sample_info:
  "get_comments_info sample_files ''photos/a.jpg''
     = Inr (Some (0, 90, ''2025-11-24'', ''10:23:45'', 270))"
  by (simp add: get_comments_info_def Image_open_def sample_files_def sample_photo_def
      getexif_or_empty_def GPS_TAG_def DATETIME_ORIGINAL_def sample_gps_def lookup_def
      sample_lat sample_lon bearing_to_origin replace_def)

lemma plain_info: "get_comments_info sample_files ''photos/b.jpg'' = Inr None"
  by (simp add: get_comments_info_def Image_open_def sample_files_def plain_photo_def
      getexif_or_empty_def)

lemma version_only_info: "get_comments_info sample_files ''photos/c.jpg'' = Inl KeyError"
  by (simp add: get_comments_info_def Image_open_def sample_files_def version_only_photo_def
      getexif_or_empty_def GPS_TAG_def DATETIME_ORIGINAL_def lookup_def)

lemma seconds_126: "fl (fl (fl (63 / 500) / 3600)) = 5165088340638674 / 2 ^ 67"
proof -
  have 1: "fl (63 / 500) = 4539628424389460 / 2 ^ 55"
    by (subst fl_eval [of "- 3"]) (simp_all add: round_half_even_def power_int_minus)
  have 2: "fl (4539628424389460 / 2 ^ 55 / 3600) = 5165088340638674 / 2 ^ 67"
    by (subst fl_eval [of "- 15"]) (simp_all add: round_half_even_def power_int_minus)
  have 3: "fl (5165088340638674 / 2 ^ 67) = 5165088340638674 / 2 ^ 67"
    using fl_exact [of 5165088340638674 "- 67"] by (simp add: power_int_minus)
  show ?thesis by (simp only: 1 2 3)
qed

lemma dms_126:
  "get_decimal_from_dms [Rational 0 1, Rational 0 1, Rational 126 1000] = Inr (fl (3 / 100000))"
  by (simp add: get_decimal_from_dms_def index_def py_round_def seconds_126 round_half_even_def)

lemma exact_126: "round_half_even ((0 + 0 / 60 + 126 / 1000 / 3600) * 100000) = 4"
  by (simp add: round_half_even_def)







lemma draw_boxes_with_text_three:
  "\<exists>ops. draw_boxes_with_text base_width box_height font transparency y_position [a, b, c]
     = Inr ops"
  by (simp add: draw_boxes_with_text_def Let_def)

lemma save_combined_image_plain:
  assumes "output_folder \<noteq> []" and "fs output_folder = None" and "CHR ''/'' \<notin> set name"
  shows "save_combined_image pil fs output_folder name combined_image =
     Inr (os_path_join output_folder name,
          fs(os_path_join output_folder name \<mapsto> combined_image\<lparr>img_class := PngImageFile\<rparr>))"
  using assms by (simp add: save_combined_image_def Let_def)

lemma save_combined_image_Inr:
  assumes "save_combined_image pil fs output_folder name combined_image = Inr (path, fs')"
  shows "path = os_path_join output_folder name
     \<and> fs' = fs(path \<mapsto> combined_image\<lparr>img_class := PngImageFile\<rparr>)"
  using assms by (auto simp: save_combined_image_def Let_def split: if_splits)

lemma create_standardized_overlay_image_result:
  assumes "fs image_path = Some img"
    and "font_file pil (py_int (fl (fl (of_int (img_height img)) * fl 0.027))) = Some font"
    and "output_folder \<noteq> []" and "fs output_folder = None"
    and "CHR ''/'' \<notin> set (combined_image_name glocation component defect_line1 defect_line2 idd)"
  shows "\<exists>layers. create_standardized_overlay_image pil fs image_path cord1 cord2
     date_month_year hour_min_second angle glocation component defect_line1 defect_line2
     idd output_folder =
       Inr (os_path_join output_folder
              (combined_image_name glocation component defect_line1 defect_line2 idd),
            fs(os_path_join output_folder
                 (combined_image_name glocation component defect_line1 defect_line2 idd)
               \<mapsto> \<lparr>img_class = PngImageFile, img_width = img_width img,
                     img_height = img_height img, img_mode = ''RGBA'', img_exif = None,
                     img_layers = layers\<rparr>))"
proof -
  obtain top_ops where t: "draw_boxes_with_text (img_width img) (img_height img div 12) font 128 0
     [[''DIRECTION'', format_fixed 1 angle @ '' deg(T)''],
      [format_fixed 5 cord1 @ [degree_sign] @ ''S'', format_fixed 5 cord2 @ [degree_sign] @ ''E''],
      [''ACCURACY 10 m'', ''DATUM WGS84'']] = Inr top_ops"
    using draw_boxes_with_text_three by blast
  obtain bottom_ops where b: "draw_boxes_with_text (img_width img) (img_height img div 12) font 128
     (img_height img - img_height img div 12)
     [[glocation, component], [defect_line1, defect_line2],
      [date_month_year, hour_min_second @ ''+10:00'']] = Inr bottom_ops"
    using draw_boxes_with_text_three by blast
  show ?thesis
    using assms(1,2) t b
    by (simp add: create_standardized_overlay_image_def Image_open_def FreeTypeFont_def
        Let_def alpha_composite_def convert_def Image_new_def draw_def
        save_combined_image_plain [where fs = fs and output_folder = output_folder, OF assms(3,4,5)])
      (rule exI, rule refl)
qed

lemma create_partial_overlay_image_result:
  assumes "fs image_path = Some img"
    and "font_file pil (py_int (fl (fl (of_int (img_height img)) * fl 0.035))) = Some font"
    and "blur_supported (img_mode img)"
    and "output_folder \<noteq> []" and "fs output_folder = None"
    and "CHR ''/'' \<notin> set (combined_image_name glocation component defect_line1 defect_line2 idd)"
  shows "\<exists>layers. create_partial_overlay_image pil fs image_path cord1 cord2
     date_month_year hour_min_second angle glocation component defect_line1 defect_line2
     idd output_folder =
       Inr (os_path_join output_folder
              (combined_image_name glocation component defect_line1 defect_line2 idd),
            fs(os_path_join output_folder
                 (combined_image_name glocation component defect_line1 defect_line2 idd)
               \<mapsto> \<lparr>img_class = PngImageFile, img_width = img_width img,
                     img_height = img_height img, img_mode = ''RGBA'', img_exif = None,
                     img_layers = layers\<rparr>))"
  using assms(1,2,3)
  by (simp add: create_partial_overlay_image_def Image_open_def FreeTypeFont_def
      Let_def alpha_composite_def convert_def Image_new_def draw_def draw_bottom_left_box_def
      save_combined_image_plain [where fs = fs and output_folder = output_folder, OF assms(4,5,6)] split: prod.splits)
    (rule exI, rule refl)

lemma create_standardized_overlay_image_path:
  assumes "create_standardized_overlay_image pil fs image_path cord1 cord2
     date_month_year hour_min_second angle glocation component defect_line1 defect_line2
     idd output_folder = Inr (path, fs')"
  shows "path = os_path_join output_folder
              (combined_image_name glocation component defect_line1 defect_line2 idd)
     \<and> (\<exists>combined. fs' = fs(path \<mapsto> combined))"
  using assms
  by (auto simp: create_standardized_overlay_image_def Let_def bindE_eq_Inr
      dest!: save_combined_image_Inr)

lemma create_partial_overlay_image_path:
  assumes "create_partial_overlay_image pil fs image_path cord1 cord2
     date_month_year hour_min_second angle glocation component defect_line1 defect_line2
     idd output_folder = Inr (path, fs')"
  shows "path = os_path_join output_folder
              (combined_image_name glocation component defect_line1 defect_line2 idd)
     \<and> (\<exists>combined. fs' = fs(path \<mapsto> combined))"
  using assms
  by (auto simp: create_partial_overlay_image_def Let_def bindE_eq_Inr
      dest!: save_combined_image_Inr split: if_splits)

lemma create_standardized_overlay_image_dimensions:
  assumes "create_standardized_overlay_image pil fs image_path cord1 cord2
     date_month_year hour_min_second angle glocation component defect_line1 defect_line2
     idd output_folder = Inr (path, fs')"
  shows "\<exists>img out. fs image_path = Some img \<and> fs' path = Some out
     \<and> img_width out = img_width img \<and> img_height out = img_height img"
  using assms
  by (auto simp: create_standardized_overlay_image_def Let_def bindE_eq_Inr Image_open_def
      alpha_composite_def convert_def
      dest!: save_combined_image_Inr split: option.splits if_splits)

lemma create_partial_overlay_image_dimensions:
  assumes "create_partial_overlay_image pil fs image_path cord1 cord2
     date_month_year hour_min_second angle glocation component defect_line1 defect_line2
     idd output_folder = Inr (path, fs')"
  shows "\<exists>img out. fs image_path = Some img \<and> fs' path = Some out
     \<and> img_width out = img_width img \<and> img_height out = img_height img"
  using assms
  by (auto simp: create_partial_overlay_image_def Let_def bindE_eq_Inr Image_open_def
      alpha_composite_def convert_def draw_bottom_left_box_def draw_def
      dest!: save_combined_image_Inr split: option.splits if_splits)




lemma sample_a: "sample_files ''photos/a.jpg'' = Some sample_photo"
  by (simp add: sample_files_def)

lemma sample_b: "sample_files ''photos/b.jpg'' = Some plain_photo"
  by (simp add: sample_files_def)

lemma sample_font_file: "font_file sample_pillow pt = Some (sample_font pt)"
  by (simp add: sample_pillow_def)

lemma str_int_3: "str_int 3 = ''3''"
  by (simp add: str_int_def str_nat.simps)

lemma str_int_4: "str_int 4 = ''4''"
  by (simp add: str_int_def str_nat.simps)

lemma sample_name_3:
  "combined_image_name ''Microcell Building'' ''Monorail 5024'' ''Corrosion and ''
     ''dmg in PCaaaa'' 3
   = ''Microcell Building_Monorail 5024_Corrosion and _dmg in PCaaaa_3.png''"
  by (simp add: combined_image_name_def str_int_3)

lemma sample_name_4:
  "combined_image_name ''Microcell Building'' ''Monorail 5024'' ''Corrosion and ''
     ''dmg in PCaaaa'' 4
   = ''Microcell Building_Monorail 5024_Corrosion and _dmg in PCaaaa_4.png''"
  by (simp add: combined_image_name_def str_int_4)

lemma no_slash_3:
  "CHR ''/'' \<notin> set (combined_image_name ''Microcell Building'' ''Monorail 5024''
     ''Corrosion and '' ''dmg in PCaaaa'' 3)"
  by (simp add: sample_name_3)

lemma no_slash_a:
  "CHR ''/'' \<notin> set (combined_image_name (row_glocation row_a) (row_component row_a)
     (row_defect_line1 row_a) (row_defect_line2 row_a) (row_idd row_a))"
  by (simp add: row_a_def sample_name_3)

lemma no_slash_b:
  "CHR ''/'' \<notin> set (combined_image_name (row_glocation row_b) (row_component row_b)
     (row_defect_line1 row_b) (row_defect_line2 row_b) (row_idd row_b))"
  by (simp add: row_b_def row_a_def sample_name_4)

lemma folder_test: "''test'' \<noteq> []" "sample_files ''test'' = None"
  by (simp_all add: sample_files_def)

lemma folder_results: "''results'' \<noteq> []" "sample_files ''results'' = None"
  by (simp_all add: sample_files_def)

lemma sample_blur: "blur_supported (img_mode sample_photo)" "blur_supported (img_mode plain_photo)"
  by (simp_all add: blur_supported_def sample_photo_def plain_photo_def)

lemma try_get_comments_info_fallback:
  assumes "\<forall>info. get_comments_info fs image_path \<noteq> Inr (Some info)"
  shows "try_get_comments_info fs image_path = fallback_info"
  using assms
  by (auto simp: try_get_comments_info_def split: sum.splits option.splits)

lemma standard_step:
  assumes "rotate_if_needed pil fs r = Inr (image_path, fs1)"
    and "try_get_comments_info fs1 image_path = (c1, c2, d, t, a)"
  shows "process_images_from_excel_with_rotation pil fs (r # df) output_folder =
     (case create_standardized_overlay_image pil fs1 image_path c1 c2 d t a
             (row_glocation r) (row_component r) (row_defect_line1 r) (row_defect_line2 r)
             (row_idd r) output_folder of
        Inl e \<Rightarrow> Inl e
      | Inr (out, fs2) \<Rightarrow> process_images_from_excel_with_rotation pil fs2 df output_folder)"
  using assms by (simp add: bindE_def split: sum.splits)

lemma partial_step:
  assumes "rotate_if_needed pil fs r = Inr (image_path, fs1)"
    and "try_get_comments_info fs1 image_path = (c1, c2, d, t, a)"
  shows "process_partial_images_from_excel_with_rotation pil fs (r # df) output_folder =
     (case create_partial_overlay_image pil fs1 image_path c1 c2 d t a
             (row_glocation r) (row_component r) (row_defect_line1 r) (row_defect_line2 r)
             (row_idd r) output_folder of
        Inl e \<Rightarrow> Inl e
      | Inr (out, fs2) \<Rightarrow>
          process_partial_images_from_excel_with_rotation pil fs2 df output_folder)"
  using assms by (simp add: bindE_def split: sum.splits)

lemma rotate_a: "rotate_if_needed pil fs row_a = Inr (''photos/a.jpg'', fs)"
  by (simp add: rotate_if_needed_def row_a_def)

lemma rotate_b: "rotate_if_needed pil fs row_b = Inr (''photos/b.jpg'', fs)"
  by (simp add: rotate_if_needed_def row_b_def row_a_def)

lemma rotate_missing: "rotate_if_needed pil fs row_missing = Inr (''photos/missing.jpg'', fs)"
  by (simp add: rotate_if_needed_def row_missing_def row_a_def)

lemma missing_info:
  "get_comments_info sample_files ''photos/missing.jpg'' = Inl FileNotFoundError"
  by (rule get_comments_info_missing_file) (simp add: sample_files_def)

lemma create_standardized_missing:
  "fs image_path = None \<Longrightarrow>
   create_standardized_overlay_image pil fs image_path c1 c2 d t a g c d1 d2 idd out
     = Inl FileNotFoundError"
  by (simp add: create_standardized_overlay_image_def Image_open_def)

lemma create_partial_missing:
  "fs image_path = None \<Longrightarrow>
   create_partial_overlay_image pil fs image_path c1 c2 d t a g c d1 d2 idd out
     = Inl FileNotFoundError"
  by (simp add: create_partial_overlay_image_def Image_open_def)

lemma standard_single_row:
  assumes "rotate_if_needed pil fs r = Inr (p, fs1)" and "fs1 p = Some img"
    and "font_file pil (py_int (fl (fl (of_int (img_height img)) * fl 0.027))) = Some font"
    and "output_folder \<noteq> []" and "fs1 output_folder = None"
    and "CHR ''/'' \<notin> set (combined_image_name (row_glocation r) (row_component r)
           (row_defect_line1 r) (row_defect_line2 r) (row_idd r))"
  shows "\<exists>combined. process_images_from_excel_with_rotation pil fs [r] output_folder =
     Inr (fs1(os_path_join output_folder
                (combined_image_name (row_glocation r) (row_component r) (row_defect_line1 r)
                   (row_defect_line2 r) (row_idd r)) \<mapsto> combined))"
proof -
  obtain c1 c2 d t a where i: "try_get_comments_info fs1 p = (c1, c2, d, t, a)"
    by (cases "try_get_comments_info fs1 p") auto
  from create_standardized_overlay_image_result
    [where fs = fs1 and image_path = p and output_folder = output_folder, OF assms(2-6)]
  obtain layers where "create_standardized_overlay_image pil fs1 p c1 c2 d t a
      (row_glocation r) (row_component r) (row_defect_line1 r) (row_defect_line2 r)
      (row_idd r) output_folder =
        Inr (os_path_join output_folder
               (combined_image_name (row_glocation r) (row_component r) (row_defect_line1 r)
                  (row_defect_line2 r) (row_idd r)),
             fs1(os_path_join output_folder
                   (combined_image_name (row_glocation r) (row_component r)
                      (row_defect_line1 r) (row_defect_line2 r) (row_idd r))
                 \<mapsto> \<lparr>img_class = PngImageFile, img_width = img_width img,
                       img_height = img_height img,
                       img_mode = ''RGBA'', img_exif = None, img_layers = layers\<rparr>))"
    by blast
  then have "process_images_from_excel_with_rotation pil fs [r] output_folder =
     Inr (fs1(os_path_join output_folder
                (combined_image_name (row_glocation r) (row_component r) (row_defect_line1 r)
                   (row_defect_line2 r) (row_idd r))
              \<mapsto> \<lparr>img_class = PngImageFile, img_width = img_width img,
                    img_height = img_height img,
                    img_mode = ''RGBA'', img_exif = None, img_layers = layers\<rparr>))"
    by (subst standard_step [OF assms(1) i]) simp
  then show ?thesis by (rule exI)
qed

lemma partial_single_row:
  assumes "rotate_if_needed pil fs r = Inr (p, fs1)" and "fs1 p = Some img"
    and "font_file pil (py_int (fl (fl (of_int (img_height img)) * fl 0.035))) = Some font"
    and "blur_supported (img_mode img)"
    and "output_folder \<noteq> []" and "fs1 output_folder = None"
    and "CHR ''/'' \<notin> set (combined_image_name (row_glocation r) (row_component r)
           (row_defect_line1 r) (row_defect_line2 r) (row_idd r))"
  shows "\<exists>combined. process_partial_images_from_excel_with_rotation pil fs [r] output_folder =
     Inr (fs1(os_path_join output_folder
                (combined_image_name (row_glocation r) (row_component r) (row_defect_line1 r)
                   (row_defect_line2 r) (row_idd r)) \<mapsto> combined))"
proof -
  obtain c1 c2 d t a where i: "try_get_comments_info fs1 p = (c1, c2, d, t, a)"
    by (cases "try_get_comments_info fs1 p") auto
  from create_partial_overlay_image_result
    [where fs = fs1 and image_path = p and output_folder = output_folder, OF assms(2-7)]
  obtain layers where "create_partial_overlay_image pil fs1 p c1 c2 d t a
      (row_glocation r) (row_component r) (row_defect_line1 r) (row_defect_line2 r)
      (row_idd r) output_folder =
        Inr (os_path_join output_folder
               (combined_image_name (row_glocation r) (row_component r) (row_defect_line1 r)
                  (row_defect_line2 r) (row_idd r)),
             fs1(os_path_join output_folder
                   (combined_image_name (row_glocation r) (row_component r)
                      (row_defect_line1 r) (row_defect_line2 r) (row_idd r))
                 \<mapsto> \<lparr>img_class = PngImageFile, img_width = img_width img,
                       img_height = img_height img,
                       img_mode = ''RGBA'', img_exif = None, img_layers = layers\<rparr>))"
    by blast
  then have "process_partial_images_from_excel_with_rotation pil fs [r] output_folder =
     Inr (fs1(os_path_join output_folder
                (combined_image_name (row_glocation r) (row_component r) (row_defect_line1 r)
                   (row_defect_line2 r) (row_idd r))
              \<mapsto> \<lparr>img_class = PngImageFile, img_width = img_width img,
                    img_height = img_height img,
                    img_mode = ''RGBA'', img_exif = None, img_layers = layers\<rparr>))"
    by (subst partial_step [OF assms(1) i]) simp
  then show ?thesis by (rule exI)
qed

lemma path_a:
  "os_path_join ''results''
     (combined_image_name (row_glocation row_a) (row_component row_a) (row_defect_line1 row_a)
        (row_defect_line2 row_a) (row_idd row_a))
   = ''results/Microcell Building_Monorail 5024_Corrosion and _dmg in PCaaaa_3.png''"
  by (simp add: os_path_join_def combined_image_name_def row_a_def str_int_def str_nat.simps)

lemma path_b:
  "os_path_join ''results''
     (combined_image_name (row_glocation row_b) (row_component row_b) (row_defect_line1 row_b)
        (row_defect_line2 row_b) (row_idd row_b))
   = ''results/Microcell Building_Monorail 5024_Corrosion and _dmg in PCaaaa_4.png''"
  by (simp add: os_path_join_def combined_image_name_def row_b_def row_a_def str_int_def
      str_nat.simps)

lemma plain_no_info:
  "\<forall>info. get_comments_info sample_files ''photos/b.jpg'' \<noteq> Inr (Some info)"
  by (simp add: plain_info)

lemma fallback_label: "format_fixed 1 (- 75) @ '' deg(T)'' = ''-75.0 deg(T)''"
  by (simp add: format_fixed_def round_half_even_def str_nat.simps)

lemma create_standardized_overlay_image_saves:
  assumes "fs image_path = Some img"
    and "font_file pil (py_int (fl (fl (of_int (img_height img)) * fl 0.027))) = Some font"
  shows "\<exists>combined. create_standardized_overlay_image pil fs image_path cord1 cord2
     date_month_year hour_min_second angle glocation component defect_line1 defect_line2
     idd output_folder =
       save_combined_image pil fs output_folder
         (combined_image_name glocation component defect_line1 defect_line2 idd) combined"
proof -
  obtain top_ops where t: "draw_boxes_with_text (img_width img) (img_height img div 12) font 128 0
     [[''DIRECTION'', format_fixed 1 angle @ '' deg(T)''],
      [format_fixed 5 cord1 @ [degree_sign] @ ''S'', format_fixed 5 cord2 @ [degree_sign] @ ''E''],
      [''ACCURACY 10 m'', ''DATUM WGS84'']] = Inr top_ops"
    using draw_boxes_with_text_three by blast
  obtain bottom_ops where b: "draw_boxes_with_text (img_width img) (img_height img div 12) font 128
     (img_height img - img_height img div 12)
     [[glocation, component], [defect_line1, defect_line2],
      [date_month_year, hour_min_second @ ''+10:00'']] = Inr bottom_ops"
    using draw_boxes_with_text_three by blast
  show ?thesis
    using assms t b
    by (simp add: create_standardized_overlay_image_def Image_open_def FreeTypeFont_def
        Let_def alpha_composite_def convert_def Image_new_def draw_def)
      (rule exI, rule refl)
qed

subsection \<open>Geodesy helper\<close>

text \<open>
  C2. For every pair of points the bearing function returns (it never raises), and the
  returned bearing lies in the half-open interval from 0 to 360. At the degenerate pair
  where both points are (0, 0) it returns 0.
\<close>

theorem bearing_defined_and_in_range:
  "(\<exists>b. calculate_initial_compass_bearing lat1 lon1 lat2 lon2 = Inr b \<and> 0 \<le> b \<and> b < 360)
   \<and> calculate_initial_compass_bearing 0 0 0 0 = Inr 0"
proof
  show "\<exists>b. calculate_initial_compass_bearing lat1 lon1 lat2 lon2 = Inr b \<and> 0 \<le> b \<and> b < 360"
    by (rule bearing_range)
  show "calculate_initial_compass_bearing 0 0 0 0 = Inr 0"
    by (simp add: calculate_initial_compass_bearing_def radians_def degrees_def atan2_def
        py_float_mod_def)
qed


text \<open>
  C7, as amended. For a triple whose components are plain numbers or pairs with a non-zero
  denominator, the conversion returns the sum degrees + minutes/60 + seconds/3600, computed
  in double precision (each quotient and each sum rounded to the nearest double), rounded
  half to even at 5 decimal places and taken to the nearest double. For components up to
  2^20 in size the result is at most 0.0000051 away from the exact sum. When a pair has a
  zero denominator the conversion raises ZeroDivisionError. For degrees 31, minutes 30,
  seconds 0 the result is 31.5, for plain numbers and for pairs alike. The rounding is
  that of the double sum, not of the exact sum: for 0 degrees, 0 minutes and 126/1000
  seconds the exact sum is 0.000035, a tie that would round to 0.00004, and the
  conversion returns the double of 0.00003.
\<close>

theorem get_decimal_from_dms_rounded_sum:
  "(nonzero_denominator d \<and> nonzero_denominator m \<and> nonzero_denominator s \<longrightarrow>
      (\<exists>r. get_decimal_from_dms [d, m, s] = Inr r
         \<and> r = py_round (fl (fl (fl (number_value d) + fl (fl (number_value m) / 60))
                               + fl (fl (number_value s) / 3600))) 5
         \<and> (\<bar>number_value d\<bar> \<le> 2 ^ 20 \<and> \<bar>number_value m\<bar> \<le> 2 ^ 20
              \<and> \<bar>number_value s\<bar> \<le> 2 ^ 20 \<longrightarrow>
            \<bar>r - (number_value d + number_value m / 60 + number_value s / 3600)\<bar>
              \<le> 51 / 10000000)))
   \<and> (\<not> (nonzero_denominator d \<and> nonzero_denominator m \<and> nonzero_denominator s) \<longrightarrow>
        get_decimal_from_dms [d, m, s] = Inl ZeroDivisionError)
   \<and> get_decimal_from_dms [Number 31, Number 30, Number 0] = Inr 31.5
   \<and> get_decimal_from_dms [Rational 31 1, Rational 30 1, Rational 0 1] = Inr 31.5
   \<and> get_decimal_from_dms [Rational 0 1, Rational 0 1, Rational 126 1000]
       = Inr (fl (3 / 100000))
   \<and> round_half_even ((0 + 0 / 60 + 126 / 1000 / 3600) * 100000) = 4"
proof (intro conjI impI)
  let ?v = "number_value d + number_value m / 60 + number_value s / 3600"
  let ?f = "fl (fl (fl (number_value d) + fl (fl (number_value m) / 60))
                 + fl (fl (number_value s) / 3600))"
  assume nz: "nonzero_denominator d \<and> nonzero_denominator m \<and> nonzero_denominator s"
  have val: "get_decimal_from_dms [d, m, s] = Inr (py_round ?f 5)"
    using nz by (simp add: get_decimal_from_dms_value py_round_def)
  have err: "\<bar>number_value d\<bar> \<le> 2 ^ 20 \<and> \<bar>number_value m\<bar> \<le> 2 ^ 20
      \<and> \<bar>number_value s\<bar> \<le> 2 ^ 20 \<longrightarrow> \<bar>py_round ?f 5 - ?v\<bar> \<le> 51 / 10000000"
  proof
    assume b: "\<bar>number_value d\<bar> \<le> 2 ^ 20 \<and> \<bar>number_value m\<bar> \<le> 2 ^ 20
      \<and> \<bar>number_value s\<bar> \<le> 2 ^ 20"
    from dms_error [of "number_value d" "number_value m" "number_value s"] b
    show "\<bar>py_round ?f 5 - ?v\<bar> \<le> 51 / 10000000"
      by (simp add: py_round_def)
  qed
  from val err
  show "\<exists>r. get_decimal_from_dms [d, m, s] = Inr r \<and> r = py_round ?f 5
      \<and> (\<bar>number_value d\<bar> \<le> 2 ^ 20 \<and> \<bar>number_value m\<bar> \<le> 2 ^ 20
            \<and> \<bar>number_value s\<bar> \<le> 2 ^ 20 \<longrightarrow>
          \<bar>r - ?v\<bar> \<le> 51 / 10000000)"
    by blast
next
  assume "\<not> (nonzero_denominator d \<and> nonzero_denominator m \<and> nonzero_denominator s)"
  then show "get_decimal_from_dms [d, m, s] = Inl ZeroDivisionError"
    by (rule get_decimal_from_dms_raises)
next
  show "get_decimal_from_dms [Number 31, Number 30, Number 0] = Inr 31.5"
    by (rule dms_31_30_numbers)
next
  show "get_decimal_from_dms [Rational 31 1, Rational 30 1, Rational 0 1] = Inr 31.5"
    by (rule dms_31_30_pairs)
next
  show "get_decimal_from_dms [Rational 0 1, Rational 0 1, Rational 126 1000]
       = Inr (fl (3 / 100000))"
    by (rule dms_126)
next
  show "round_half_even ((0 + 0 / 60 + 126 / 1000 / 3600) * 100000) = 4"
    by (rule exact_126)
qed

text \<open>
  C7, witness: 31 degrees, 30 minutes and 35.99 seconds, all as pairs, convert to a double
  at most 0.0000051 away from the exact sum 31.5099972...
\<close>

theorem get_decimal_from_dms_rounded_sum_witness:
  "nonzero_denominator (Rational 31 1) \<and> nonzero_denominator (Rational 30 1)
   \<and> nonzero_denominator (Rational 3599 100)
   \<and> \<bar>number_value (Rational 31 1)\<bar> \<le> 2 ^ 20 \<and> \<bar>number_value (Rational 30 1)\<bar> \<le> 2 ^ 20
   \<and> \<bar>number_value (Rational 3599 100)\<bar> \<le> 2 ^ 20
   \<and> (\<exists>r. get_decimal_from_dms [Rational 31 1, Rational 30 1, Rational 3599 100] = Inr r
         \<and> \<bar>r - (31 + 30 / 60 + 3599 / 100 / 3600)\<bar> \<le> 51 / 10000000)"
proof -
  have h: "nonzero_denominator (Rational 31 1) \<and> nonzero_denominator (Rational 30 1)
      \<and> nonzero_denominator (Rational 3599 100)"
    by simp
  have b: "\<bar>number_value (Rational 31 1)\<bar> \<le> 2 ^ 20 \<and> \<bar>number_value (Rational 30 1)\<bar> \<le> 2 ^ 20
      \<and> \<bar>number_value (Rational 3599 100)\<bar> \<le> 2 ^ 20"
    by simp
  from get_decimal_from_dms_rounded_sum
    [of "Rational 31 1" "Rational 30 1" "Rational 3599 100", THEN conjunct1, rule_format, OF h]
  obtain r where r: "get_decimal_from_dms [Rational 31 1, Rational 30 1, Rational 3599 100] = Inr r"
    and e: "\<bar>number_value (Rational 31 1)\<bar> \<le> 2 ^ 20 \<and> \<bar>number_value (Rational 30 1)\<bar> \<le> 2 ^ 20
      \<and> \<bar>number_value (Rational 3599 100)\<bar> \<le> 2 ^ 20 \<longrightarrow>
      \<bar>r - (number_value (Rational 31 1) + number_value (Rational 30 1) / 60
            + number_value (Rational 3599 100) / 3600)\<bar> \<le> 51 / 10000000"
    by blast
  from e b have "\<bar>r - (number_value (Rational 31 1) + number_value (Rational 30 1) / 60
            + number_value (Rational 3599 100) / 3600)\<bar> \<le> 51 / 10000000"
    by blast
  then have "\<bar>r - (31 + 30 / 60 + 3599 / 100 / 3600)\<bar> \<le> 51 / 10000000"
    by simp
  with r have "\<exists>r. get_decimal_from_dms [Rational 31 1, Rational 30 1, Rational 3599 100] = Inr r
         \<and> \<bar>r - (31 + 30 / 60 + 3599 / 100 / 3600)\<bar> \<le> 51 / 10000000"
    by blast
  with h b show ?thesis by blast
qed

text \<open>
  C7, counterexample to the claim as stated: a triple of pairs whose minutes have a zero
  denominator is not converted, the conversion raises.
\<close>

theorem get_decimal_from_dms_counterexample:
  "get_decimal_from_dms [Rational 31 1, Rational 30 0, Rational 0 1] = Inl ZeroDivisionError"
  by (simp add: get_decimal_from_dms_def index_def)

subsection \<open>Metadata extractor\<close>

text \<open>
  C1, as amended. Whenever the extractor returns a tuple, its bearing is the result of the
  bearing function called with the extracted coordinate as the first point and the fixed
  point (0, 0) as the second point.
\<close>

theorem get_comments_info_bearing_to_origin:
  assumes "get_comments_info fs image_path = Inr (Some (cord1, cord2, d, t, angle))"
  shows "calculate_initial_compass_bearing cord1 cord2 0 0 = Inr angle"
  using assms by (rule get_comments_info_Some_bearing)

text \<open>
  C1, witness: the photo taken at latitude 0, longitude 90 gets the bearing 270, which is
  the bearing from there to (0, 0).
\<close>

theorem get_comments_info_bearing_to_origin_witness:
  "get_comments_info sample_files ''photos/a.jpg''
     = Inr (Some (0, 90, ''2025-11-24'', ''10:23:45'', 270))
   \<and> calculate_initial_compass_bearing 0 90 0 0 = Inr 270"
  using get_comments_info_bearing_to_origin [OF sample_info] sample_info by simp

text \<open>
  C1, counterexample to the claim as stated: for the photo taken at latitude 0, longitude
  90 the extractor returns the bearing 270, while the bearing function with that
  coordinate as both endpoints returns 0.
\<close>

theorem get_comments_info_self_bearing_counterexample:
  "get_comments_info sample_files ''photos/a.jpg''
     = Inr (Some (0, 90, ''2025-11-24'', ''10:23:45'', 270))
   \<and> calculate_initial_compass_bearing 0 90 0 90 = Inr 0
   \<and> (270 :: real) \<noteq> 0"
  by (simp add: sample_info self_bearing)


text \<open>
  C3, the code at the failing input: a JPEG photo whose EXIF holds both fields, with a GPS
  directory that carries the version tag only, as a camera writes it without a position
  fix. The extractor returns neither the tuple nor None: the lookup of the latitude raises
  KeyError. An image of a class without the method \<^verbatim>\<open>_getexif\<close>, such as a BMP file, has
  no GPS field, and for it the extractor raises AttributeError instead of returning None.
\<close>

theorem get_comments_info_raises_without_position:
  "sample_files ''photos/c.jpg'' = Some version_only_photo
   \<and> getexif_or_empty version_only_photo
       = Inr [GPS_TAG \<mapsto> GPSInfo [0 \<mapsto> [Number 2, Number 0, Number 0, Number 0]],
              DATETIME_ORIGINAL \<mapsto> Ascii ''2025:11:24 10:23:45'']
   \<and> get_comments_info sample_files ''photos/c.jpg'' = Inl KeyError
   \<and> get_comments_info [''photos/d.bmp'' \<mapsto> plain_photo\<lparr>img_class := PlainImage\<rparr>]
        ''photos/d.bmp'' = Inl AttributeError"
proof (intro conjI)
  show "sample_files ''photos/c.jpg'' = Some version_only_photo"
    by (simp add: sample_files_def)
  show "getexif_or_empty version_only_photo
       = Inr [GPS_TAG \<mapsto> GPSInfo [0 \<mapsto> [Number 2, Number 0, Number 0, Number 0]],
              DATETIME_ORIGINAL \<mapsto> Ascii ''2025:11:24 10:23:45'']"
    by (simp add: getexif_or_empty_def version_only_photo_def)
  show "get_comments_info sample_files ''photos/c.jpg'' = Inl KeyError"
    by (rule version_only_info)
  show "get_comments_info [''photos/d.bmp'' \<mapsto> plain_photo\<lparr>img_class := PlainImage\<rparr>]
        ''photos/d.bmp'' = Inl AttributeError"
    by (simp add: get_comments_info_def Image_open_def getexif_or_empty_def)
qed

subsection \<open>Overlay renderer\<close>







text \<open>
  C6. Whenever a renderer of either variant returns, the path it returns is the output
  folder joined with the file name glocation_component_defect_line1_defect_line2_idd.png,
  whatever the image, the coordinates, the date, the time, the bearing, the font and the
  disk are, and the disk it leaves is the old disk with that path (over)written. So two
  calls with the same five values and folder write the same file.
\<close>

theorem output_filename_pure:
  "(create_standardized_overlay_image pil fs image_path cord1 cord2 date_month_year
      hour_min_second angle glocation component defect_line1 defect_line2 idd output_folder
      = Inr (path, fs') \<longrightarrow>
        path = os_path_join output_folder
                 (glocation @ ''_'' @ component @ ''_'' @ defect_line1 @ ''_'' @ defect_line2
                    @ ''_'' @ str_int idd @ ''.png'')
        \<and> (\<exists>combined. fs' = fs(path \<mapsto> combined)))
   \<and> (create_partial_overlay_image pil2 fs2 image_path2 cord1_2 cord2_2 date_month_year2
      hour_min_second2 angle2 glocation component defect_line1 defect_line2 idd output_folder
      = Inr (path2, fs2') \<longrightarrow>
        path2 = os_path_join output_folder
                 (glocation @ ''_'' @ component @ ''_'' @ defect_line1 @ ''_'' @ defect_line2
                    @ ''_'' @ str_int idd @ ''.png'')
        \<and> (\<exists>combined. fs2' = fs2(path2 \<mapsto> combined)))"
proof (intro conjI impI)
  assume "create_standardized_overlay_image pil fs image_path cord1 cord2 date_month_year
      hour_min_second angle glocation component defect_line1 defect_line2 idd output_folder
      = Inr (path, fs')"
  from create_standardized_overlay_image_path [OF this]
  show "path = os_path_join output_folder
                 (glocation @ ''_'' @ component @ ''_'' @ defect_line1 @ ''_'' @ defect_line2
                    @ ''_'' @ str_int idd @ ''.png'')"
    and "\<exists>combined. fs' = fs(path \<mapsto> combined)"
    by (auto simp: combined_image_name_def)
next
  assume "create_partial_overlay_image pil2 fs2 image_path2 cord1_2 cord2_2 date_month_year2
      hour_min_second2 angle2 glocation component defect_line1 defect_line2 idd output_folder
      = Inr (path2, fs2')"
  from create_partial_overlay_image_path [OF this]
  show "path2 = os_path_join output_folder
                 (glocation @ ''_'' @ component @ ''_'' @ defect_line1 @ ''_'' @ defect_line2
                    @ ''_'' @ str_int idd @ ''.png'')"
    and "\<exists>combined. fs2' = fs2(path2 \<mapsto> combined)"
    by (auto simp: combined_image_name_def)
qed

text \<open>
  C6, witness: the standardized renderer on the geotagged sample photo and the partial
  renderer on another photo with other metadata, called with the same five values, both
  return the same path.
\<close>

theorem output_filename_pure_witness:
  "(\<exists>fs'. create_standardized_overlay_image sample_pillow sample_files ''photos/a.jpg''
      0 90 ''2025-11-24'' ''10:23:45'' 270
      ''Microcell Building'' ''Monorail 5024'' ''Corrosion and '' ''dmg in PCaaaa'' 3 ''test''
      = Inr (''test/Microcell Building_Monorail 5024_Corrosion and _dmg in PCaaaa_3.png'', fs'))
   \<and> (\<exists>fs'. create_partial_overlay_image sample_pillow sample_files ''photos/b.jpg''
      32.25315 115.76708 ''2024:06:12'' ''2024:06:12'' (- 75)
      ''Microcell Building'' ''Monorail 5024'' ''Corrosion and '' ''dmg in PCaaaa'' 3 ''test''
      = Inr (''test/Microcell Building_Monorail 5024_Corrosion and _dmg in PCaaaa_3.png'', fs'))"
proof
  from create_standardized_overlay_image_result
    [where fs = sample_files and image_path = "''photos/a.jpg''" and output_folder = "''test''",
     OF sample_a sample_font_file folder_test no_slash_3]
  obtain p f where r: "create_standardized_overlay_image sample_pillow sample_files ''photos/a.jpg''
      0 90 ''2025-11-24'' ''10:23:45'' 270
      ''Microcell Building'' ''Monorail 5024'' ''Corrosion and '' ''dmg in PCaaaa'' 3 ''test''
      = Inr (p, f)"
    by blast
  from output_filename_pure [THEN conjunct1, rule_format, OF r]
  have "p = ''test/Microcell Building_Monorail 5024_Corrosion and _dmg in PCaaaa_3.png''"
    by (simp add: os_path_join_def str_int_3)
  with r show "\<exists>fs'. create_standardized_overlay_image sample_pillow sample_files ''photos/a.jpg''
      0 90 ''2025-11-24'' ''10:23:45'' 270
      ''Microcell Building'' ''Monorail 5024'' ''Corrosion and '' ''dmg in PCaaaa'' 3 ''test''
      = Inr (''test/Microcell Building_Monorail 5024_Corrosion and _dmg in PCaaaa_3.png'', fs')"
    by blast
next
  from create_partial_overlay_image_result
    [where fs = sample_files and image_path = "''photos/b.jpg''" and output_folder = "''test''",
     OF sample_b sample_font_file sample_blur(2) folder_test no_slash_3]
  obtain p f where r: "create_partial_overlay_image sample_pillow sample_files ''photos/b.jpg''
      32.25315 115.76708 ''2024:06:12'' ''2024:06:12'' (- 75)
      ''Microcell Building'' ''Monorail 5024'' ''Corrosion and '' ''dmg in PCaaaa'' 3 ''test''
      = Inr (p, f)"
    by blast
  from output_filename_pure [THEN conjunct2, rule_format, OF r]
  have "p = ''test/Microcell Building_Monorail 5024_Corrosion and _dmg in PCaaaa_3.png''"
    by (simp add: os_path_join_def str_int_3)
  with r show "\<exists>fs'. create_partial_overlay_image sample_pillow sample_files ''photos/b.jpg''
      32.25315 115.76708 ''2024:06:12'' ''2024:06:12'' (- 75)
      ''Microcell Building'' ''Monorail 5024'' ''Corrosion and '' ''dmg in PCaaaa'' 3 ''test''
      = Inr (''test/Microcell Building_Monorail 5024_Corrosion and _dmg in PCaaaa_3.png'', fs')"
    by blast
qed


text \<open>
  C8, as amended. Whenever a renderer of either variant returns, the input image opened
  and the image saved at the returned path has the width and the height of the input
  image. A renderer does not return for every image and record.
\<close>

theorem overlay_keeps_dimensions:
  "(create_standardized_overlay_image pil fs image_path cord1 cord2 date_month_year
      hour_min_second angle glocation component defect_line1 defect_line2 idd output_folder
      = Inr (path, fs') \<longrightarrow>
        (\<exists>img out. fs image_path = Some img \<and> fs' path = Some out
           \<and> img_width out = img_width img \<and> img_height out = img_height img))
   \<and> (create_partial_overlay_image pil fs image_path cord1 cord2 date_month_year
      hour_min_second angle glocation component defect_line1 defect_line2 idd output_folder
      = Inr (path, fs') \<longrightarrow>
        (\<exists>img out. fs image_path = Some img \<and> fs' path = Some out
           \<and> img_width out = img_width img \<and> img_height out = img_height img))"
proof (intro conjI impI)
  assume "create_standardized_overlay_image pil fs image_path cord1 cord2 date_month_year
      hour_min_second angle glocation component defect_line1 defect_line2 idd output_folder
      = Inr (path, fs')"
  then show "\<exists>img out. fs image_path = Some img \<and> fs' path = Some out
           \<and> img_width out = img_width img \<and> img_height out = img_height img"
    by (rule create_standardized_overlay_image_dimensions)
next
  assume "create_partial_overlay_image pil fs image_path cord1 cord2 date_month_year
      hour_min_second angle glocation component defect_line1 defect_line2 idd output_folder
      = Inr (path, fs')"
  then show "\<exists>img out. fs image_path = Some img \<and> fs' path = Some out
           \<and> img_width out = img_width img \<and> img_height out = img_height img"
    by (rule create_partial_overlay_image_dimensions)
qed

text \<open>
  C8, witness: both variants return on the 1200 by 960 sample photo and save a 1200 by
  960 image.
\<close>

theorem overlay_keeps_dimensions_witness:
  "sample_files ''photos/a.jpg'' = Some sample_photo
   \<and> (\<exists>path fs' out.
        create_standardized_overlay_image sample_pillow sample_files ''photos/a.jpg''
          0 90 ''2025-11-24'' ''10:23:45'' 270
          ''Microcell Building'' ''Monorail 5024'' ''Corrosion and '' ''dmg in PCaaaa'' 3 ''test''
          = Inr (path, fs')
        \<and> fs' path = Some out \<and> img_width out = 1200 \<and> img_height out = 960)
   \<and> (\<exists>path fs' out.
        create_partial_overlay_image sample_pillow sample_files ''photos/a.jpg''
          0 90 ''2025-11-24'' ''10:23:45'' 270
          ''Microcell Building'' ''Monorail 5024'' ''Corrosion and '' ''dmg in PCaaaa'' 3 ''test''
          = Inr (path, fs')
        \<and> fs' path = Some out \<and> img_width out = 1200 \<and> img_height out = 960)"
proof (intro conjI)
  have d: "img_width sample_photo = 1200" "img_height sample_photo = 960"
    by (simp_all add: sample_photo_def)
  show "sample_files ''photos/a.jpg'' = Some sample_photo"
    by (rule sample_a)
  show "\<exists>path fs' out.
        create_standardized_overlay_image sample_pillow sample_files ''photos/a.jpg''
          0 90 ''2025-11-24'' ''10:23:45'' 270
          ''Microcell Building'' ''Monorail 5024'' ''Corrosion and '' ''dmg in PCaaaa'' 3 ''test''
          = Inr (path, fs')
        \<and> fs' path = Some out \<and> img_width out = 1200 \<and> img_height out = 960"
  proof -
    from create_standardized_overlay_image_result
      [where fs = sample_files and image_path = "''photos/a.jpg''" and output_folder = "''test''",
       OF sample_a sample_font_file folder_test no_slash_3]
    obtain p f where r: "create_standardized_overlay_image sample_pillow sample_files
        ''photos/a.jpg'' 0 90 ''2025-11-24'' ''10:23:45'' 270
        ''Microcell Building'' ''Monorail 5024'' ''Corrosion and '' ''dmg in PCaaaa'' 3 ''test''
        = Inr (p, f)"
      by blast
    from overlay_keeps_dimensions [THEN conjunct1, rule_format, OF r]
    obtain img out where "sample_files ''photos/a.jpg'' = Some img" "f p = Some out"
      "img_width out = img_width img" "img_height out = img_height img"
      by blast
    with sample_a d have "f p = Some out \<and> img_width out = 1200 \<and> img_height out = 960"
      by simp
    with r show ?thesis by blast
  qed
  show "\<exists>path fs' out.
        create_partial_overlay_image sample_pillow sample_files ''photos/a.jpg''
          0 90 ''2025-11-24'' ''10:23:45'' 270
          ''Microcell Building'' ''Monorail 5024'' ''Corrosion and '' ''dmg in PCaaaa'' 3 ''test''
          = Inr (path, fs')
        \<and> fs' path = Some out \<and> img_width out = 1200 \<and> img_height out = 960"
  proof -
    from create_partial_overlay_image_result
      [where fs = sample_files and image_path = "''photos/a.jpg''" and output_folder = "''test''",
       OF sample_a sample_font_file sample_blur(1) folder_test no_slash_3]
    obtain p f where r: "create_partial_overlay_image sample_pillow sample_files
        ''photos/a.jpg'' 0 90 ''2025-11-24'' ''10:23:45'' 270
        ''Microcell Building'' ''Monorail 5024'' ''Corrosion and '' ''dmg in PCaaaa'' 3 ''test''
        = Inr (p, f)"
      by blast
    from overlay_keeps_dimensions [THEN conjunct2, rule_format, OF r]
    obtain img out where "sample_files ''photos/a.jpg'' = Some img" "f p = Some out"
      "img_width out = img_width img" "img_height out = img_height img"
      by blast
    with sample_a d have "f p = Some out \<and> img_width out = 1200 \<and> img_height out = 960"
      by simp
    with r show ?thesis by blast
  qed
qed

text \<open>
  C8, counterexample to the claim as stated: for the sample photo and a record whose
  location holds a slash, the standardized renderer saves no image, it raises
  FileNotFoundError when it writes the file; for a palette image the partial renderer
  saves no image, it raises ValueError at the blur.
\<close>

theorem overlay_not_produced_counterexample:
  "sample_files ''photos/a.jpg'' = Some sample_photo
   \<and> create_standardized_overlay_image sample_pillow sample_files ''photos/a.jpg''
        0 90 ''2025-11-24'' ''10:23:45'' 270
        ''Level 1/2'' ''Monorail 5024'' ''Corrosion and '' ''dmg in PCaaaa'' 3 ''results''
       = Inl FileNotFoundError
   \<and> create_partial_overlay_image sample_pillow
        [''photos/p.png'' \<mapsto> sample_photo\<lparr>img_class := PngImageFile, img_mode := ''P''\<rparr>]
        ''photos/p.png'' 0 90 ''2025-11-24'' ''10:23:45'' 270
        ''Microcell Building'' ''Monorail 5024'' ''Corrosion and '' ''dmg in PCaaaa'' 3 ''results''
       = Inl ValueError"
proof (intro conjI)
  show "sample_files ''photos/a.jpg'' = Some sample_photo"
    by (rule sample_a)
  from create_standardized_overlay_image_saves
    [where fs = sample_files and image_path = "''photos/a.jpg''" and pil = sample_pillow,
     OF sample_a sample_font_file]
  obtain combined where "create_standardized_overlay_image sample_pillow sample_files
      ''photos/a.jpg'' 0 90 ''2025-11-24'' ''10:23:45'' 270
      ''Level 1/2'' ''Monorail 5024'' ''Corrosion and '' ''dmg in PCaaaa'' 3 ''results''
      = save_combined_image sample_pillow sample_files ''results''
          (combined_image_name ''Level 1/2'' ''Monorail 5024'' ''Corrosion and ''
             ''dmg in PCaaaa'' 3) combined"
    by blast
  then show "create_standardized_overlay_image sample_pillow sample_files ''photos/a.jpg''
        0 90 ''2025-11-24'' ''10:23:45'' 270
        ''Level 1/2'' ''Monorail 5024'' ''Corrosion and '' ''dmg in PCaaaa'' 3 ''results''
       = Inl FileNotFoundError"
    by (simp add: save_combined_image_def sample_pillow_def sample_files_def
        combined_image_name_def os_path_join_def os_path_dirname_def str_int_3)
  show "create_partial_overlay_image sample_pillow
        [''photos/p.png'' \<mapsto> sample_photo\<lparr>img_class := PngImageFile, img_mode := ''P''\<rparr>]
        ''photos/p.png'' 0 90 ''2025-11-24'' ''10:23:45'' 270
        ''Microcell Building'' ''Monorail 5024'' ''Corrosion and '' ''dmg in PCaaaa'' 3 ''results''
       = Inl ValueError"
    by (simp add: create_partial_overlay_image_def Image_open_def FreeTypeFont_def
        sample_font_file blur_supported_def sample_photo_def Let_def)
qed

subsection \<open>Batch drivers\<close>

text \<open>
  C4, as amended. In both rotation-aware drivers, when the rotation step of a row returns
  and metadata extraction for the row fails (it raises, or it returns None), the driver
  invokes the renderer for that row with the hard-coded tuple (32.25315, 115.76708,
  2024:06:12, 2024:06:12, -75), the same for every failing row. The extraction failure
  itself never aborts the batch: the driver goes on with the remaining rows exactly when
  that renderer call returns, and the batch ends with the renderer's exception when it
  raises.
\<close>

theorem extraction_failure_uses_fallback:
  assumes "rotate_if_needed pil fs r = Inr (image_path, fs1)"
    and "\<forall>info. get_comments_info fs1 image_path \<noteq> Inr (Some info)"
  shows "process_images_from_excel_with_rotation pil fs (r # df) output_folder =
     (case create_standardized_overlay_image pil fs1 image_path
             32.25315 115.76708 ''2024:06:12'' ''2024:06:12'' (- 75)
             (row_glocation r) (row_component r) (row_defect_line1 r) (row_defect_line2 r)
             (row_idd r) output_folder of
        Inl e \<Rightarrow> Inl e
      | Inr (out, fs2) \<Rightarrow> process_images_from_excel_with_rotation pil fs2 df output_folder)
   \<and> process_partial_images_from_excel_with_rotation pil fs (r # df) output_folder =
     (case create_partial_overlay_image pil fs1 image_path
             32.25315 115.76708 ''2024:06:12'' ''2024:06:12'' (- 75)
             (row_glocation r) (row_component r) (row_defect_line1 r) (row_defect_line2 r)
             (row_idd r) output_folder of
        Inl e \<Rightarrow> Inl e
      | Inr (out, fs2) \<Rightarrow>
          process_partial_images_from_excel_with_rotation pil fs2 df output_folder)"
proof -
  have "try_get_comments_info fs1 image_path
          = (32.25315, 115.76708, ''2024:06:12'', ''2024:06:12'', - 75)"
    using try_get_comments_info_fallback [OF assms(2)] by (simp add: fallback_info_def)
  from standard_step [OF assms(1) this] partial_step [OF assms(1) this]
  show ?thesis by simp
qed

text \<open>
  C4, witness: a batch of two rows. The photo of the first row has no EXIF, so extraction
  returns None and the fallback tuple is rendered; the batch goes on to the second row,
  and both output files are on the disk at the end.
\<close>

theorem extraction_failure_uses_fallback_witness:
  "rotate_if_needed sample_pillow sample_files row_b = Inr (''photos/b.jpg'', sample_files)
   \<and> get_comments_info sample_files ''photos/b.jpg'' = Inr None
   \<and> (\<exists>fs'. process_images_from_excel_with_rotation sample_pillow sample_files
               [row_b, row_a] ''results'' = Inr fs'
          \<and> fs' ''results/Microcell Building_Monorail 5024_Corrosion and _dmg in PCaaaa_4.png''
               \<noteq> None
          \<and> fs' ''results/Microcell Building_Monorail 5024_Corrosion and _dmg in PCaaaa_3.png''
               \<noteq> None)
   \<and> (\<exists>fs'. process_partial_images_from_excel_with_rotation sample_pillow sample_files
               [row_b, row_a] ''results'' = Inr fs'
          \<and> fs' ''results/Microcell Building_Monorail 5024_Corrosion and _dmg in PCaaaa_4.png''
               \<noteq> None
          \<and> fs' ''results/Microcell Building_Monorail 5024_Corrosion and _dmg in PCaaaa_3.png''
               \<noteq> None)"
proof (intro conjI)
  let ?pb = "''results/Microcell Building_Monorail 5024_Corrosion and _dmg in PCaaaa_4.png''"
  let ?pa = "''results/Microcell Building_Monorail 5024_Corrosion and _dmg in PCaaaa_3.png''"
  note t = extraction_failure_uses_fallback
    [where pil = sample_pillow and fs = sample_files and r = row_b and df = "[row_a]"
       and output_folder = "''results''", OF rotate_b plain_no_info]
  show "rotate_if_needed sample_pillow sample_files row_b = Inr (''photos/b.jpg'', sample_files)"
    by (rule rotate_b)
  show "get_comments_info sample_files ''photos/b.jpg'' = Inr None"
    by (rule plain_info)
  show "\<exists>fs'. process_images_from_excel_with_rotation sample_pillow sample_files
               [row_b, row_a] ''results'' = Inr fs' \<and> fs' ?pb \<noteq> None \<and> fs' ?pa \<noteq> None"
  proof -
    from create_standardized_overlay_image_result
      [where fs = sample_files and image_path = "''photos/b.jpg''" and pil = sample_pillow
         and ?cord1.0 = "32.25315" and ?cord2.0 = "115.76708"
         and date_month_year = "''2024:06:12''" and hour_min_second = "''2024:06:12''"
         and angle = "- 75" and glocation = "row_glocation row_b"
         and component = "row_component row_b" and ?defect_line1.0 = "row_defect_line1 row_b"
         and ?defect_line2.0 = "row_defect_line2 row_b" and idd = "row_idd row_b"
         and output_folder = "''results''",
       OF sample_b sample_font_file folder_results no_slash_b, unfolded path_b]
    obtain layers where c: "create_standardized_overlay_image sample_pillow sample_files
        ''photos/b.jpg'' 32.25315 115.76708 ''2024:06:12'' ''2024:06:12'' (- 75)
        (row_glocation row_b) (row_component row_b) (row_defect_line1 row_b)
        (row_defect_line2 row_b) (row_idd row_b) ''results'' =
        Inr (?pb, sample_files(?pb \<mapsto> \<lparr>img_class = PngImageFile, img_width = img_width plain_photo,
               img_height = img_height plain_photo, img_mode = ''RGBA'', img_exif = None,
               img_layers = layers\<rparr>))"
      by blast
    let ?fs2 = "sample_files(?pb \<mapsto> \<lparr>img_class = PngImageFile, img_width = img_width plain_photo,
               img_height = img_height plain_photo, img_mode = ''RGBA'', img_exif = None,
               img_layers = layers\<rparr>)"
    have a: "?fs2 ''photos/a.jpg'' = Some sample_photo"
      by (simp add: sample_a)
    have n: "?fs2 ''results'' = None"
      by (simp add: folder_results)
    from standard_single_row
      [where ?fs1.0 = ?fs2 and p = "''photos/a.jpg''" and fs = ?fs2 and pil = sample_pillow
         and output_folder = "''results''",
       OF rotate_a a sample_font_file folder_results(1) n no_slash_a]
    obtain combined where "process_images_from_excel_with_rotation sample_pillow ?fs2 [row_a]
        ''results'' = Inr (?fs2(?pa \<mapsto> combined))"
      unfolding path_a by blast
    with t [THEN conjunct1] c
    have "process_images_from_excel_with_rotation sample_pillow sample_files
               [row_b, row_a] ''results'' = Inr (?fs2(?pa \<mapsto> combined))"
      by (simp only: sum.case prod.case)
    moreover have "(?fs2(?pa \<mapsto> combined)) ?pb \<noteq> None" "(?fs2(?pa \<mapsto> combined)) ?pa \<noteq> None"
      by simp_all
    ultimately show ?thesis by blast
  qed
  show "\<exists>fs'. process_partial_images_from_excel_with_rotation sample_pillow sample_files
               [row_b, row_a] ''results'' = Inr fs' \<and> fs' ?pb \<noteq> None \<and> fs' ?pa \<noteq> None"
  proof -
    from create_partial_overlay_image_result
      [where fs = sample_files and image_path = "''photos/b.jpg''" and pil = sample_pillow
         and ?cord1.0 = "32.25315" and ?cord2.0 = "115.76708"
         and date_month_year = "''2024:06:12''" and hour_min_second = "''2024:06:12''"
         and angle = "- 75" and glocation = "row_glocation row_b"
         and component = "row_component row_b" and ?defect_line1.0 = "row_defect_line1 row_b"
         and ?defect_line2.0 = "row_defect_line2 row_b" and idd = "row_idd row_b"
         and output_folder = "''results''",
       OF sample_b sample_font_file sample_blur(2) folder_results no_slash_b, unfolded path_b]
    obtain layers where c: "create_partial_overlay_image sample_pillow sample_files
        ''photos/b.jpg'' 32.25315 115.76708 ''2024:06:12'' ''2024:06:12'' (- 75)
        (row_glocation row_b) (row_component row_b) (row_defect_line1 row_b)
        (row_defect_line2 row_b) (row_idd row_b) ''results'' =
        Inr (?pb, sample_files(?pb \<mapsto> \<lparr>img_class = PngImageFile, img_width = img_width plain_photo,
               img_height = img_height plain_photo, img_mode = ''RGBA'', img_exif = None,
               img_layers = layers\<rparr>))"
      by blast
    let ?fs2 = "sample_files(?pb \<mapsto> \<lparr>img_class = PngImageFile, img_width = img_width plain_photo,
               img_height = img_height plain_photo, img_mode = ''RGBA'', img_exif = None,
               img_layers = layers\<rparr>)"
    have a: "?fs2 ''photos/a.jpg'' = Some sample_photo"
      by (simp add: sample_a)
    have n: "?fs2 ''results'' = None"
      by (simp add: folder_results)
    from partial_single_row
      [where ?fs1.0 = ?fs2 and p = "''photos/a.jpg''" and fs = ?fs2 and pil = sample_pillow
         and output_folder = "''results''",
       OF rotate_a a sample_font_file sample_blur(1) folder_results(1) n no_slash_a]
    obtain combined where "process_partial_images_from_excel_with_rotation sample_pillow ?fs2
        [row_a] ''results'' = Inr (?fs2(?pa \<mapsto> combined))"
      unfolding path_a by blast
    with t [THEN conjunct2] c
    have "process_partial_images_from_excel_with_rotation sample_pillow sample_files
               [row_b, row_a] ''results'' = Inr (?fs2(?pa \<mapsto> combined))"
      by (simp only: sum.case prod.case)
    moreover have "(?fs2(?pa \<mapsto> combined)) ?pb \<noteq> None" "(?fs2(?pa \<mapsto> combined)) ?pa \<noteq> None"
      by simp_all
    ultimately show ?thesis by blast
  qed
qed

text \<open>
  C4, counterexample to the claim as stated: a batch of two rows whose first row names a
  file that is not on the disk. Extraction fails for that row and the fallback tuple is
  substituted, the renderer is invoked and raises FileNotFoundError, and the batch ends
  there with that exception: the second row, which alone is processed without an error,
  is never reached.
\<close>

theorem batch_abort_counterexample:
  "get_comments_info sample_files ''photos/missing.jpg'' = Inl FileNotFoundError
   \<and> try_get_comments_info sample_files ''photos/missing.jpg'' = fallback_info
   \<and> process_images_from_excel_with_rotation sample_pillow sample_files
        [row_missing, row_a] ''results'' = Inl FileNotFoundError
   \<and> process_partial_images_from_excel_with_rotation sample_pillow sample_files
        [row_missing, row_a] ''results'' = Inl FileNotFoundError
   \<and> \<not> isl (process_images_from_excel_with_rotation sample_pillow sample_files
        [row_a] ''results'')
   \<and> \<not> isl (process_partial_images_from_excel_with_rotation sample_pillow sample_files
        [row_a] ''results'')"
proof (intro conjI)
  have none: "sample_files ''photos/missing.jpg'' = None"
    by (simp add: sample_files_def)
  show "get_comments_info sample_files ''photos/missing.jpg'' = Inl FileNotFoundError"
    by (rule missing_info)
  show fb: "try_get_comments_info sample_files ''photos/missing.jpg'' = fallback_info"
    by (simp add: try_get_comments_info_def missing_info)
  obtain c1 c2 d t a where f: "fallback_info = (c1, c2, d, t, a)"
    by (cases fallback_info) auto
  show "process_images_from_excel_with_rotation sample_pillow sample_files
        [row_missing, row_a] ''results'' = Inl FileNotFoundError"
    by (subst standard_step [OF rotate_missing fb [unfolded f]])
      (simp add: create_standardized_missing none)
  show "process_partial_images_from_excel_with_rotation sample_pillow sample_files
        [row_missing, row_a] ''results'' = Inl FileNotFoundError"
    by (subst partial_step [OF rotate_missing fb [unfolded f]])
      (simp add: create_partial_missing none)
  from standard_single_row
      [where ?fs1.0 = sample_files and p = "''photos/a.jpg''",
       OF rotate_a sample_a sample_font_file folder_results no_slash_a]
  obtain fs2 where "process_images_from_excel_with_rotation sample_pillow sample_files
        [row_a] ''results'' = Inr fs2"
    by blast
  then show "\<not> isl (process_images_from_excel_with_rotation sample_pillow sample_files
        [row_a] ''results'')"
    by (simp only: sum.disc not_False_eq_True)
  from partial_single_row
      [where ?fs1.0 = sample_files and p = "''photos/a.jpg''",
       OF rotate_a sample_a sample_font_file sample_blur(1) folder_results no_slash_a]
  obtain fs3 where "process_partial_images_from_excel_with_rotation sample_pillow sample_files
        [row_a] ''results'' = Inr fs3"
    by blast
  then show "\<not> isl (process_partial_images_from_excel_with_rotation sample_pillow sample_files
        [row_a] ''results'')"
    by (simp only: sum.disc not_False_eq_True)
qed


text \<open>
  C10, the code at the failing input: for a photo without EXIF the extractor returns None,
  the \<^verbatim>\<open>try\<close> statement yields the fallback tuple, and both drivers pass its bearing -75
  to the renderer, which prints it as the direction label. -75 is outside the range from
  0 to 360 that the bearing function guarantees for every extracted bearing.
\<close>

theorem fallback_bearing_out_of_range:
  "get_comments_info sample_files ''photos/b.jpg'' = Inr None
   \<and> try_get_comments_info sample_files ''photos/b.jpg''
       = (32.25315, 115.76708, ''2024:06:12'', ''2024:06:12'', - 75)
   \<and> process_images_from_excel_with_rotation sample_pillow sample_files [row_b] ''results'' =
       (case create_standardized_overlay_image sample_pillow sample_files ''photos/b.jpg''
               32.25315 115.76708 ''2024:06:12'' ''2024:06:12'' (- 75)
               ''Microcell Building'' ''Monorail 5024'' ''Corrosion and '' ''dmg in PCaaaa'' 4
               ''results'' of
          Inl e \<Rightarrow> Inl e | Inr (out, fs2) \<Rightarrow> Inr fs2)
   \<and> process_partial_images_from_excel_with_rotation sample_pillow sample_files [row_b]
         ''results'' =
       (case create_partial_overlay_image sample_pillow sample_files ''photos/b.jpg''
               32.25315 115.76708 ''2024:06:12'' ''2024:06:12'' (- 75)
               ''Microcell Building'' ''Monorail 5024'' ''Corrosion and '' ''dmg in PCaaaa'' 4
               ''results'' of
          Inl e \<Rightarrow> Inl e | Inr (out, fs2) \<Rightarrow> Inr fs2)
   \<and> format_fixed 1 (- 75) @ '' deg(T)'' = ''-75.0 deg(T)''
   \<and> \<not> (0 \<le> (- 75 :: real) \<and> (- 75 :: real) < 360)"
proof (intro conjI)
  show "get_comments_info sample_files ''photos/b.jpg'' = Inr None"
    by (rule plain_info)
  show tb: "try_get_comments_info sample_files ''photos/b.jpg''
       = (32.25315, 115.76708, ''2024:06:12'', ''2024:06:12'', - 75)"
    by (simp add: try_get_comments_info_def plain_info fallback_info_def)
  show "process_images_from_excel_with_rotation sample_pillow sample_files [row_b] ''results'' =
       (case create_standardized_overlay_image sample_pillow sample_files ''photos/b.jpg''
               32.25315 115.76708 ''2024:06:12'' ''2024:06:12'' (- 75)
               ''Microcell Building'' ''Monorail 5024'' ''Corrosion and '' ''dmg in PCaaaa'' 4
               ''results'' of
          Inl e \<Rightarrow> Inl e | Inr (out, fs2) \<Rightarrow> Inr fs2)"
    by (subst standard_step [OF rotate_b tb])
      (simp add: row_b_def row_a_def split: sum.splits prod.splits)
  show "process_partial_images_from_excel_with_rotation sample_pillow sample_files [row_b]
         ''results'' =
       (case create_partial_overlay_image sample_pillow sample_files ''photos/b.jpg''
               32.25315 115.76708 ''2024:06:12'' ''2024:06:12'' (- 75)
               ''Microcell Building'' ''Monorail 5024'' ''Corrosion and '' ''dmg in PCaaaa'' 4
               ''results'' of
          Inl e \<Rightarrow> Inl e | Inr (out, fs2) \<Rightarrow> Inr fs2)"
    by (subst partial_step [OF rotate_b tb])
      (simp add: row_b_def row_a_def split: sum.splits prod.splits)
  show "format_fixed 1 (- 75) @ '' deg(T)'' = ''-75.0 deg(T)''"
    by (rule fallback_label)
  show "\<not> (0 \<le> (- 75 :: real) \<and> (- 75 :: real) < 360)"
    by simp
qed

end
